theory Spec2Isabelle
  imports Main "HOL-Library.Sublist"
begin

section \<open>Python values used by the schedule code\<close>

subsection \<open>Strings\<close>

text \<open>
  A Python \<^verbatim>\<open>str\<close> is represented by the bytes of its UTF-8 encoding. On ASCII text
  \<open>py_lower\<close> and \<open>py_strip\<close> are exactly \<^verbatim>\<open>str.lower()\<close> and \<^verbatim>\<open>str.strip()\<close>;
  bytes above 127 are left alone (Python would also fold non-ASCII capitals and strip
  Unicode white space).
\<close>

definition lower_char :: "char \<Rightarrow> char" where
  "lower_char c =
     (let n = (of_char c :: nat) in if 65 \<le> n \<and> n \<le> 90 then char_of (n + 32) else c)"

definition py_lower :: "string \<Rightarrow> string" where
  "py_lower s = map lower_char s"

definition is_space :: "char \<Rightarrow> bool" where
  "is_space c =
     (let n = (of_char c :: nat) in (9 \<le> n \<and> n \<le> 13) \<or> (28 \<le> n \<and> n \<le> 32))"

definition py_strip :: "string \<Rightarrow> string" where
  "py_strip s = rev (dropWhile is_space (rev (dropWhile is_space s)))"

definition startswith :: "string \<Rightarrow> string \<Rightarrow> bool" where
  "startswith s p = (take (length p) s = p)"

fun join :: "string \<Rightarrow> string list \<Rightarrow> string" where
  "join sep [] = []"
| "join sep [x] = x"
| "join sep (x # y # ys) = x @ sep @ join sep (y # ys)"

text \<open>Decimal rendering of a non-negative number, as \<^verbatim>\<open>str(n)\<close> or \<^verbatim>\<open>f"{n}"\<close> gives it.\<close>

definition digit_char :: "nat \<Rightarrow> char" where
  "digit_char d = char_of (48 + d mod 10)"

fun str_nat :: "nat \<Rightarrow> string" where
  "str_nat n = (if n < 10 then [digit_char n] else str_nat (n div 10) @ [digit_char (n mod 10)])"

declare str_nat.simps [simp del]

definition str_int :: "int \<Rightarrow> string" where
  "str_int i = (if i < 0 then CHR ''-'' # str_nat (nat (- i)) else str_nat (nat i))"

text \<open>Zero padding to a minimal width, as the \<^verbatim>\<open>%d\<close>, \<^verbatim>\<open>%m\<close>, \<^verbatim>\<open>%I\<close> and \<^verbatim>\<open>%M\<close>
  directives of \<^verbatim>\<open>strftime\<close> do.\<close>

definition zero_pad :: "nat \<Rightarrow> nat \<Rightarrow> string" where
  "zero_pad w n = (let s = str_nat n in replicate (w - length s) CHR ''0'' @ s)"

subsection \<open>Exceptions\<close>

text \<open>
  The exceptions the code distinguishes, each with the text \<^verbatim>\<open>str(e)\<close> gives.
  Only subclasses of \<^verbatim>\<open>Exception\<close> are modelled. \<open>ParserError\<close> is dateutil's
  \<^verbatim>\<open>parser.ParserError\<close>, a subclass of \<^verbatim>\<open>ValueError\<close>; \<open>HttpError\<close> carries the
  status of its response (\<^verbatim>\<open>error.resp.status\<close>).
\<close>

datatype exn =
    ParserError string
  | ValueError string
  | OverflowError string
  | KeyError string
  | TypeError string
  | HttpError int string
  | OtherException string

fun exn_str :: "exn \<Rightarrow> string" where
  "exn_str (ParserError m) = m"
| "exn_str (ValueError m) = m"
| "exn_str (OverflowError m) = m"
| "exn_str (KeyError m) = m"
| "exn_str (TypeError m) = m"
| "exn_str (HttpError st m) = m"
| "exn_str (OtherException m) = m"

fun is_ParserError :: "exn \<Rightarrow> bool" where
  "is_ParserError (ParserError m) = True"
| "is_ParserError e = False"

text \<open>\<^verbatim>\<open>except ValueError\<close> also catches the subclass.\<close>

fun is_ValueError :: "exn \<Rightarrow> bool" where
  "is_ValueError (ParserError m) = True"
| "is_ValueError (ValueError m) = True"
| "is_ValueError e = False"

subsection \<open>Calendar dates\<close>

text \<open>
  A \<^verbatim>\<open>datetime.date\<close> is represented by its proleptic Gregorian ordinal
  (\<^verbatim>\<open>date.toordinal()\<close>): day 1 is 0001-01-01 and \<^verbatim>\<open>date.max\<close>, 9999-12-31, is day
  3652059. Adding a \<^verbatim>\<open>timedelta\<close> of whole days raises \<^verbatim>\<open>OverflowError\<close> when the
  result leaves that range.
\<close>

type_synonym date = int

definition MAXORDINAL :: int where
  "MAXORDINAL = 3652059"

definition valid_date :: "date \<Rightarrow> bool" where
  "valid_date d = (1 \<le> d \<and> d \<le> MAXORDINAL)"

definition date_add_days :: "date \<Rightarrow> int \<Rightarrow> exn + date" where
  "date_add_days d n =
     (let ordinal = d + n in
      if 0 < ordinal \<and> ordinal \<le> MAXORDINAL then Inr ordinal else Inl (OverflowError ''date value out of range''))"

text \<open>\<^verbatim>\<open>date.weekday()\<close>: Monday is 0 and Sunday is 6.\<close>

definition weekday :: "date \<Rightarrow> int" where
  "weekday d = (d + 6) mod 7"

section \<open>Relative Date Resolver: \<^verbatim>\<open>parse_relative_date\<close>\<close>

text \<open>
  \<^verbatim>\<open>list.index\<close>: the position of the first occurrence, or \<open>None\<close> where Python raises
  \<^verbatim>\<open>ValueError\<close>.
\<close>

fun index_of :: "'a list \<Rightarrow> 'a \<Rightarrow> nat option" where
  "index_of [] x = None"
| "index_of (y # ys) x = (if y = x then Some 0 else map_option Suc (index_of ys x))"

definition weekdays :: "string list" where
  "weekdays = [''monday'', ''tuesday'', ''wednesday'', ''thursday'', ''friday'',
               ''saturday'', ''sunday'']"

text \<open>
  \<^verbatim>\<open>parse_relative_date(day_str)\<close> of \<^verbatim>\<open>utils/google_calendar.py\<close>. The clock reading
  \<^verbatim>\<open>datetime.date.today()\<close> is the argument \<open>today\<close>. The general parser of the dateutil
  library is the argument \<open>parser_parse\<close>: \<open>parser_parse s today\<close> stands for
  \<^verbatim>\<open>parser.parse(s, default=datetime.combine(today, time(0))).date()\<close> and is \<open>Inl e\<close>
  when that call raises \<open>e\<close>.

  The result is \<open>Inr (Some d)\<close> for a returned date, \<open>Inr None\<close> for a returned \<^verbatim>\<open>None\<close>,
  and \<open>Inl e\<close> when the function raises: the additions for tomorrow and yesterday are
  outside every \<^verbatim>\<open>try\<close>, and the addition in the weekday branch runs inside an
  \<^verbatim>\<open>except\<close> handler whose inner \<^verbatim>\<open>try\<close> catches \<^verbatim>\<open>ValueError\<close> only.
\<close>

definition parse_relative_date ::
  "(string \<Rightarrow> date \<Rightarrow> exn + date) \<Rightarrow> date \<Rightarrow> string \<Rightarrow> exn + date option" where
  "parse_relative_date parser_parse today day_str =
     (let day_str_lower = py_strip (py_lower day_str) in
      if day_str_lower = ''today'' then Inr (Some today)
      else if day_str_lower = ''tomorrow'' then map_sum id Some (date_add_days today 1)
      else if day_str_lower = ''yesterday'' then map_sum id Some (date_add_days today (- 1))
      else
        (case parser_parse day_str today of
           Inr parsed_date \<Rightarrow> Inr (Some parsed_date)
         | Inl e \<Rightarrow>
             if is_ParserError e then
               (case index_of weekdays day_str_lower of
                  Some target_weekday \<Rightarrow>
                    (let days_ahead = (int target_weekday - weekday today + 7) mod 7;
                         days_ahead = (if days_ahead = 0 then 7 else days_ahead)
                     in map_sum id Some (date_add_days today days_ahead))
                | None \<Rightarrow> Inr None)
             else Inr None))"


subsection \<open>The dateutil parser on a weekday name\<close>

text \<open>
  dateutil is a library the repository imports; its source is not part of the repository.
  The following reproduces what \<^verbatim>\<open>parser.parse(timestr, default=...)\<close> does when
  \<open>timestr\<close> is one weekday name (with optional white space around it):
  \<^verbatim>\<open>parserinfo.weekday\<close> looks the lower-cased token up among the abbreviations and the
  full names, the result has a weekday and no day, and \<^verbatim>\<open>_build_naive\<close> adds
  \<^verbatim>\<open>relativedelta(weekday=...)\<close> to the default, a jump of
  \<^verbatim>\<open>(7 - default.weekday() + weekday) % 7\<close> days: zero days when the default already
  falls on that weekday. On every other string the definition answers \<open>ParserError\<close>, which
  is a placeholder and not a statement about dateutil; it is used only at weekday names.
\<close>

definition dateutil_WEEKDAYS :: "(string \<times> string) list" where
  "dateutil_WEEKDAYS =
     [(''mon'', ''monday''), (''tue'', ''tuesday''), (''wed'', ''wednesday''),
      (''thu'', ''thursday''), (''fri'', ''friday''), (''sat'', ''saturday''),
      (''sun'', ''sunday'')]"

definition info_weekday :: "string \<Rightarrow> nat option" where
  "info_weekday name =
     (case index_of (map fst dateutil_WEEKDAYS) (py_lower name) of
        Some i \<Rightarrow> Some i
      | None \<Rightarrow> index_of (map snd dateutil_WEEKDAYS) (py_lower name))"

definition dateutil_parse_weekday_name :: "string \<Rightarrow> date \<Rightarrow> exn + date" where
  "dateutil_parse_weekday_name timestr default_date =
     (case info_weekday (py_strip timestr) of
        Some wd \<Rightarrow> date_add_days default_date ((7 - weekday default_date + int wd) mod 7)
      | None \<Rightarrow> Inl (ParserError ''Unknown string format''))"

section \<open>Formatting dates and times\<close>

text \<open>
  \<^verbatim>\<open>strftime\<close> reads the year, month and day of a date. \<open>ord2ymd\<close> is the conversion the
  Python standard library uses (\<^verbatim>\<open>_ord2ymd\<close> of \<^verbatim>\<open>datetime.py\<close>): 146097 days in 400
  years, 36524 in 100, 1461 in 4.
\<close>

definition DAYS_IN_MONTH :: "int list" where
  "DAYS_IN_MONTH = [31, 28, 31, 30, 31, 30, 31, 31, 30, 31, 30, 31]"

definition DAYS_BEFORE_MONTH :: "int list" where
  "DAYS_BEFORE_MONTH = [0, 31, 59, 90, 120, 151, 181, 212, 243, 273, 304, 334]"

text \<open>
  The last step of \<^verbatim>\<open>_ord2ymd\<close>: month and day of the month from the day of the year
  \<open>n\<close> (counted from 0), with the estimate \<^verbatim>\<open>(n + 50) >> 5\<close> of the month corrected when it
  is one too large.
\<close>

definition month_and_day :: "bool \<Rightarrow> int \<Rightarrow> nat \<times> int" where
  "month_and_day leapyear n =
     (let month = nat ((n + 50) div 32);
          preceding = DAYS_BEFORE_MONTH ! (month - 1) +
                      (if month > 2 \<and> leapyear then 1 else 0)
      in if preceding > n then
           (let month = month - 1;
                preceding = preceding - (DAYS_IN_MONTH ! (month - 1) +
                              (if month = 2 \<and> leapyear then 1 else 0))
            in (month, n - preceding + 1))
         else (month, n - preceding + 1))"

definition ord2ymd :: "int \<Rightarrow> int \<times> nat \<times> int" where
  "ord2ymd ordinal =
     (let n = ordinal - 1;
          n400 = n div 146097; n = n mod 146097;
          n100 = n div 36524; n = n mod 36524;
          n4 = n div 1461; n = n mod 1461;
          n1 = n div 365; n = n mod 365;
          year = n400 * 400 + 1 + n100 * 100 + n4 * 4 + n1
      in if n1 = 4 \<or> n100 = 4 then (year - 1, 12, 31)
         else
           (let leapyear = (n1 = 3 \<and> (n4 \<noteq> 24 \<or> n100 = 3))
            in case month_and_day leapyear n of (month, day) \<Rightarrow> (year, month, day)))"

definition DAY_NAMES :: "string list" where
  "DAY_NAMES = [''Monday'', ''Tuesday'', ''Wednesday'', ''Thursday'', ''Friday'',
                ''Saturday'', ''Sunday'']"

definition MONTH_NAMES :: "string list" where
  "MONTH_NAMES = [''January'', ''February'', ''March'', ''April'', ''May'', ''June'', ''July'',
                  ''August'', ''September'', ''October'', ''November'', ''December'']"

text \<open>
  \<^verbatim>\<open>target_date.strftime('%A, %B %d, %Y')\<close> in the C locale, as CPython gives it on the C
  library of Linux: full weekday name, full month name, day of the month in two digits,
  and the year in decimal without padding, so four digits from the year 1000 on and
  fewer below (\<^verbatim>\<open>date(999, 12, 31)\<close> gives \<^verbatim>\<open>Tuesday, December 31, 999\<close>).
\<close>

definition strftime_A_B_d_Y :: "date \<Rightarrow> string" where
  "strftime_A_B_d_Y d =
     (case ord2ymd d of
        (year, month, day) \<Rightarrow>
          DAY_NAMES ! nat (weekday d) @ '', '' @ MONTH_NAMES ! (month - 1) @ '' '' @
          zero_pad 2 (nat day) @ '', '' @ str_nat (nat year))"

text \<open>
  A datetime in the local zone is represented by its wall clock: the microseconds since
  0001-01-01 00:00 local time. Two datetimes that carry the same \<^verbatim>\<open>tzinfo\<close> object are
  subtracted on their wall clocks, which is the case of \<^verbatim>\<open>end_dt - start_time_local\<close>.
\<close>

type_synonym local_datetime = int

definition US_PER_MINUTE :: int where
  "US_PER_MINUTE = 60000000"

definition US_PER_DAY :: int where
  "US_PER_DAY = 86400000000"

definition hour_of :: "local_datetime \<Rightarrow> nat" where
  "hour_of t = nat ((t div (60 * US_PER_MINUTE)) mod 24)"

definition minute_of :: "local_datetime \<Rightarrow> nat" where
  "minute_of t = nat ((t div US_PER_MINUTE) mod 60)"

definition date_of :: "local_datetime \<Rightarrow> date" where
  "date_of t = t div US_PER_DAY + 1"

text \<open>\<^verbatim>\<open>strftime('%I:%M %p')\<close>: twelve-hour clock, for example \<^verbatim>\<open>09:30 AM\<close>.\<close>

definition strftime_I_M_p :: "local_datetime \<Rightarrow> string" where
  "strftime_I_M_p t =
     (let h = hour_of t;
          h12 = (if h mod 12 = 0 then 12 else h mod 12)
      in zero_pad 2 h12 @ '':'' @ zero_pad 2 (minute_of t) @ '' '' @
         (if h < 12 then ''AM'' else ''PM''))"

text \<open>
  \<^verbatim>\<open>int(duration.total_seconds() / 60)\<close>: the whole minutes of a difference of wall
  clocks, rounded towards zero. The division is computed exactly (the source divides
  floating-point numbers).
\<close>

definition duration_minutes_of :: "int \<Rightarrow> int" where
  "duration_minutes_of us =
     (if 0 \<le> us then us div US_PER_MINUTE else - ((- us) div US_PER_MINUTE))"

section \<open>The calendar provider\<close>

text \<open>
  An event as the provider's client library returns it: a dictionary, with the keys the
  code reads. A key that is absent is \<open>None\<close>; \<^verbatim>\<open>event['start']\<close>, \<^verbatim>\<open>event['end']\<close> and
  \<^verbatim>\<open>event['id']\<close> raise \<^verbatim>\<open>KeyError\<close> on an absent key.
\<close>

record time_field =
  dateTime :: "string option"
  date_key :: "string option"

record event =
  ev_id :: "string option"
  ev_start :: "time_field option"
  ev_end :: "time_field option"
  ev_summary :: "string option"

text \<open>The tuple \<^verbatim>\<open>(event['id'], time_str, event_summary)\<close> kept for a later removal.\<close>

type_synonym event_details = "string \<times> string \<times> string"

text \<open>The body of an insert request: title, start and end (wall clock), zone name.\<close>

record insert_body =
  body_summary :: string
  body_start :: local_datetime
  body_end :: local_datetime
  body_timeZone :: string

text \<open>
  The service object. Each request runs against the provider's state \<open>'p\<close> and either
  returns or raises. \<open>events_list d\<close> stands for lines 153 to 168 of
  \<^verbatim>\<open>get_events_for_day\<close>: the window of the day \<open>d\<close> in the local zone and the
  \<^verbatim>\<open>events().list(...).execute()\<close> on it; its value is the \<^verbatim>\<open>'items'\<close> of the response,
  \<open>None\<close> when the key is absent. \<open>events_insert\<close> returns the \<^verbatim>\<open>'htmlLink'\<close> of the created
  event, \<open>None\<close> when absent.
\<close>

record 'p service =
  events_list :: "date \<Rightarrow> 'p \<Rightarrow> (exn + event list option) \<times> 'p"
  events_insert :: "insert_body \<Rightarrow> 'p \<Rightarrow> (exn + string option) \<times> 'p"
  events_delete :: "string \<Rightarrow> 'p \<Rightarrow> (exn + unit) \<times> 'p"

text \<open>The requests issued to the provider, in order.\<close>

datatype call = ListCall date | InsertCall insert_body | DeleteCall string

text \<open>What the bot sends to the requester: \<^verbatim>\<open>ctx.send(text)\<close> and
  \<^verbatim>\<open>send_long_message(ctx, text)\<close>, in order. Sending is taken to succeed.\<close>

datatype message = Send string | SendLong string

text \<open>
  The state the commands run in: the provider's state, the requests issued so far, the
  cog's \<^verbatim>\<open>last_viewed_events\<close> dictionary (keyed by \<^verbatim>\<open>ctx.author.id\<close>) and the
  messages sent so far.
\<close>

record 'p world =
  provider :: 'p
  calls :: "call list"
  last_viewed_events :: "int \<rightharpoonup> event_details list"
  sent :: "message list"

text \<open>
  The library functions on datetimes that the code calls and the repository does not
  define: \<open>parser_parse_date\<close> is the parser of \<open>parse_relative_date\<close>;
  \<open>parser_parse_local\<close> stands for lines 171 to 176 of \<^verbatim>\<open>schedule_add\<close>
  (\<^verbatim>\<open>parser.parse(time_str)\<close>, then the local zone attached or converted to);
  \<open>isoparse\<close> is \<^verbatim>\<open>parser.isoparse\<close>; \<open>astimezone_local\<close> is
  \<^verbatim>\<open>.astimezone(local_tz)\<close>; \<open>tzname\<close> is the name of the local zone
  (\<^verbatim>\<open>%Z\<close>, \<^verbatim>\<open>datetime.now(tz.tzlocal()).tzname()\<close>).
\<close>

record 'dt lib =
  parser_parse_date :: "string \<Rightarrow> date \<Rightarrow> exn + date"
  parser_parse_local :: "string \<Rightarrow> exn + local_datetime"
  isoparse :: "string \<Rightarrow> exn + 'dt"
  astimezone_local :: "'dt \<Rightarrow> exn + local_datetime"
  tzname :: string

section \<open>Event Window Fetcher: \<^verbatim>\<open>get_events_for_day\<close>\<close>

text \<open>
  The two tests the daily summary applies to a rendered summary
  (\<^verbatim>\<open>summary_text.startswith("Error:") or summary_text.startswith("An unexpected error")\<close>):
  the failure signal embedded in the string.
\<close>

definition signals_error :: "string \<Rightarrow> bool" where
  "signals_error summary_text =
     (startswith summary_text ''Error:'' \<or> startswith summary_text ''An unexpected error'')"

text \<open>\<^verbatim>\<open>event['start'].get('dateTime', event['start'].get('date'))\<close>\<close>

definition get_dateTime_or_date :: "time_field \<Rightarrow> string option" where
  "get_dateTime_or_date tf = (case dateTime tf of Some s \<Rightarrow> Some s | None \<Rightarrow> date_key tf)"

text \<open>\<^verbatim>\<open>parser.isoparse\<close> of a value that may be \<^verbatim>\<open>None\<close>.\<close>

definition isoparse_opt :: "'dt lib \<Rightarrow> string option \<Rightarrow> exn + 'dt" where
  "isoparse_opt lib v =
     (case v of
        None \<Rightarrow> Inl (TypeError ''Parser must be a string or character stream, not NoneType'')
      | Some s \<Rightarrow> isoparse lib s)"

text \<open>
  The time label of an event, lines 186 to 200, given the parsed start: the local start
  time, with the duration in minutes when the end is timed and the duration is positive,
  or \<^verbatim>\<open>All Day\<close>.
\<close>

definition time_label ::
  "'dt lib \<Rightarrow> time_field \<Rightarrow> time_field \<Rightarrow> 'dt \<Rightarrow> string option \<Rightarrow> exn + string" where
  "time_label lib start_field end_field start_dt end_value =
     (if dateTime start_field \<noteq> None then
        (case astimezone_local lib start_dt of
           Inl e \<Rightarrow> Inl e
         | Inr start_time_local \<Rightarrow>
             (let time_str = strftime_I_M_p start_time_local in
              if dateTime end_field \<noteq> None then
                (case isoparse_opt lib end_value of
                   Inl e \<Rightarrow> Inl e
                 | Inr end_parsed \<Rightarrow>
                     (case astimezone_local lib end_parsed of
                        Inl e \<Rightarrow> Inl e
                      | Inr end_dt \<Rightarrow>
                          (let duration_minutes = duration_minutes_of (end_dt - start_time_local)
                           in if duration_minutes > 0
                              then Inr (time_str @ '' ('' @ str_int duration_minutes @ '' min)'')
                              else Inr time_str)))
              else Inr time_str))
      else Inr ''All Day'')"

text \<open>
  One pass of the loop body, lines 179 to 204, up to the values it appends: the
  \<open>event_details\<close> tuple of the event, or the exception the body raises.
\<close>

definition event_row :: "'dt lib \<Rightarrow> event \<Rightarrow> exn + event_details" where
  "event_row lib ev =
     (case ev_start ev of
        None \<Rightarrow> Inl (KeyError ([CHR 0x27] @ ''start'' @ [CHR 0x27]))
      | Some start_field \<Rightarrow>
          (case ev_end ev of
             None \<Rightarrow> Inl (KeyError ([CHR 0x27] @ ''end'' @ [CHR 0x27]))
           | Some end_field \<Rightarrow>
               (case isoparse_opt lib (get_dateTime_or_date start_field) of
                  Inl e \<Rightarrow> Inl e
                | Inr start_dt \<Rightarrow>
                    (case time_label lib start_field end_field start_dt
                            (get_dateTime_or_date end_field) of
                       Inl e \<Rightarrow> Inl e
                     | Inr time_str \<Rightarrow>
                         (let event_summary =
                                (case ev_summary ev of None \<Rightarrow> ''No Title'' | Some t \<Rightarrow> t)
                          in case ev_id ev of
                               None \<Rightarrow> Inl (KeyError ([CHR 0x27] @ ''id'' @ [CHR 0x27]))
                             | Some event_id \<Rightarrow> Inr (event_id, time_str, event_summary))))))"

text \<open>The line appended to \<^verbatim>\<open>summary_lines\<close> for one event:
  \<^verbatim>\<open>f"`[{event_counter}]` {time_str}: {event_summary}"\<close>, the index set in backticks.\<close>

definition summary_line :: "nat \<Rightarrow> string \<Rightarrow> string \<Rightarrow> string" where
  "summary_line event_counter time_str event_summary =
     ''`['' @ str_nat event_counter @ '']` '' @ time_str @ '': '' @ event_summary"

text \<open>
  The \<^verbatim>\<open>for event in events\<close> loop with its three variables; an exception leaves the
  loop.
\<close>

fun events_loop ::
  "'dt lib \<Rightarrow> event list \<Rightarrow> nat \<Rightarrow> string list \<Rightarrow> event_details list \<Rightarrow>
   exn + (string list \<times> event_details list)" where
  "events_loop lib [] event_counter summary_lines event_details_list =
     Inr (summary_lines, event_details_list)"
| "events_loop lib (ev # events) event_counter summary_lines event_details_list =
     (case event_row lib ev of
        Inl e \<Rightarrow> Inl e
      | Inr (event_id, time_str, event_summary) \<Rightarrow>
          events_loop lib events (event_counter + 1)
            (summary_lines @ [summary_line event_counter time_str event_summary])
            (event_details_list @ [(event_id, time_str, event_summary)]))"

text \<open>The two \<^verbatim>\<open>except\<close> clauses at the end of \<^verbatim>\<open>get_events_for_day\<close>.\<close>

definition fetch_error_text :: "exn \<Rightarrow> string" where
  "fetch_error_text e =
     (case e of
        HttpError st m \<Rightarrow>
          ''Error: An HTTP error occurred while fetching the schedule: '' @ exn_str e
      | _ \<Rightarrow> ''An unexpected error occurred while fetching the schedule: '' @ exn_str e)"

definition get_events_for_day ::
  "'dt lib \<Rightarrow> 'p service option \<Rightarrow> date \<Rightarrow> 'p world \<Rightarrow>
   (string \<times> event_details list) \<times> 'p world" where
  "get_events_for_day lib service target_date w =
     (case service of
        None \<Rightarrow> ((''Error: Calendar service not available.'', []), w)
      | Some svc \<Rightarrow>
          (case events_list svc target_date (provider w) of
             (response, p') \<Rightarrow>
               (let w' = w\<lparr>provider := p', calls := calls w @ [ListCall target_date]\<rparr> in
                case response of
                  Inl e \<Rightarrow> ((fetch_error_text e, []), w')
                | Inr items \<Rightarrow>
                    (let events = (case items of None \<Rightarrow> [] | Some evs \<Rightarrow> evs) in
                     if events = [] then
                       ((''No events found for '' @ strftime_A_B_d_Y target_date @ ''.'', []), w')
                     else
                       (case events_loop lib events 1
                               [''**Schedule for '' @ strftime_A_B_d_Y target_date @ '':**''] [] of
                          Inl e \<Rightarrow> ((fetch_error_text e, []), w')
                        | Inr (summary_lines, event_details_list) \<Rightarrow>
                            ((join [CHR 0x0A] summary_lines, event_details_list), w'))))))"

section \<open>Event Mutation: \<^verbatim>\<open>add_calendar_event\<close> and \<^verbatim>\<open>remove_calendar_event\<close>\<close>

definition MONTH_ABBR :: "string list" where
  "MONTH_ABBR = [''Jan'', ''Feb'', ''Mar'', ''Apr'', ''May'', ''Jun'', ''Jul'', ''Aug'', ''Sep'',
                 ''Oct'', ''Nov'', ''Dec'']"

text \<open>\<^verbatim>\<open>start_dt.strftime('%b %d at %I:%M %p')\<close>\<close>

definition strftime_b_d_at_I_M_p :: "local_datetime \<Rightarrow> string" where
  "strftime_b_d_at_I_M_p t =
     (case ord2ymd (date_of t) of
        (year, month, day) \<Rightarrow>
          MONTH_ABBR ! (month - 1) @ '' '' @ zero_pad 2 (nat day) @ '' at '' @ strftime_I_M_p t)"

text \<open>\<^verbatim>\<open>start_dt.strftime('%Y-%m-%d %I:%M %p %Z')\<close>\<close>

definition strftime_Y_m_d_I_M_p_Z :: "string \<Rightarrow> local_datetime \<Rightarrow> string" where
  "strftime_Y_m_d_I_M_p_Z zone t =
     (case ord2ymd (date_of t) of
        (year, month, day) \<Rightarrow>
          str_nat (nat year) @ ''-'' @ zero_pad 2 month @ ''-'' @ zero_pad 2 (nat day) @
          '' '' @ strftime_I_M_p t @ '' '' @ zone)"

text \<open>
  The text literals of \<^verbatim>\<open>utils/google_calendar.py\<close> that begin with characters outside
  ASCII, byte for byte as the file has them.
\<close>

definition ADDED_MARK :: string where
  "ADDED_MARK = [CHR 0xC3, CHR 0xA2, CHR 0xC5, CHR 0x93, CHR 0xE2, CHR 0x80, CHR 0xA6]"

definition REMOVED_MARK :: string where
  "REMOVED_MARK = [CHR 0xC3, CHR 0xB0, CHR 0xC5, CHR 0xB8, CHR 0xE2, CHR 0x80, CHR 0x94,
                   CHR 0xE2, CHR 0x80, CHR 0x98, CHR 0xC3, CHR 0xAF, CHR 0xC2, CHR 0xB8]"

definition WARNING_MARK :: string where
  "WARNING_MARK = [CHR 0xC3, CHR 0xA2, CHR 0xC5, CHR 0xA1, CHR 0xC2, CHR 0xA0, CHR 0xC3,
                   CHR 0xAF, CHR 0xC2, CHR 0xB8]"

definition NOT_FOUND_TEXT :: string where
  "NOT_FOUND_TEXT = WARNING_MARK @ '' Event not found. It might have been already deleted.''"

definition add_calendar_event ::
  "'dt lib \<Rightarrow> 'p service option \<Rightarrow> string \<Rightarrow> local_datetime \<Rightarrow> local_datetime \<Rightarrow> 'p world \<Rightarrow>
   string \<times> 'p world" where
  "add_calendar_event lib service summary start_dt end_dt w =
     (case service of
        None \<Rightarrow> (''Error: Calendar service not available.'', w)
      | Some svc \<Rightarrow>
          (let body = \<lparr>body_summary = summary, body_start = start_dt, body_end = end_dt,
                       body_timeZone = tzname lib\<rparr> in
           case events_insert svc body (provider w) of
             (response, p') \<Rightarrow>
               (let w' = w\<lparr>provider := p', calls := calls w @ [InsertCall body]\<rparr> in
                case response of
                  Inr htmlLink \<Rightarrow>
                    (ADDED_MARK @ '' Event added: '' @ [CHR 0x27] @ summary @ [CHR 0x27] @
                     '' on '' @ strftime_b_d_at_I_M_p start_dt @ ''. Link: <'' @
                     (case htmlLink of None \<Rightarrow> ''None'' | Some l \<Rightarrow> l) @ ''>'', w')
                | Inl (HttpError st m) \<Rightarrow>
                    (''Error: An HTTP error occurred while adding the event: '' @ m, w')
                | Inl e \<Rightarrow>
                    (''An unexpected error occurred while adding the event: '' @ exn_str e, w'))))"

definition remove_calendar_event ::
  "'p service option \<Rightarrow> string \<Rightarrow> 'p world \<Rightarrow> string \<times> 'p world" where
  "remove_calendar_event service event_id w =
     (case service of
        None \<Rightarrow> (''Error: Calendar service not available.'', w)
      | Some svc \<Rightarrow>
          (case events_delete svc event_id (provider w) of
             (response, p') \<Rightarrow>
               (let w' = w\<lparr>provider := p', calls := calls w @ [DeleteCall event_id]\<rparr> in
                case response of
                  Inr u \<Rightarrow> (REMOVED_MARK @ '' Event removed successfully.'', w')
                | Inl (HttpError status m) \<Rightarrow>
                    if status = 404 \<or> status = 410 then (NOT_FOUND_TEXT, w')
                    else (''Error: An HTTP error occurred while removing the event: '' @ m, w')
                | Inl e \<Rightarrow>
                    (''An unexpected error occurred while removing the event: '' @ exn_str e,
                     w'))))"

section \<open>The commands of \<^verbatim>\<open>ScheduleCog\<close>\<close>

text \<open>
  The cog's \<^verbatim>\<open>calendar_service\<close> is the argument \<open>service\<close> (\<open>None\<close> for a false one),
  \<^verbatim>\<open>ctx.author.id\<close> is \<open>author\<close>. The hand-over of a call to the executor is the call
  itself: the three utility functions catch every exception themselves, and a failure
  of the executor (the handlers that answer "Sorry, an error occurred ...") is not
  modelled. \<^verbatim>\<open>ctx.send\<close> appends to \<open>sent\<close>.
\<close>

definition ctx_send :: "string \<Rightarrow> 'p world \<Rightarrow> 'p world" where
  "ctx_send text w = w\<lparr>sent := sent w @ [Send text]\<rparr>"


definition NOT_AVAILABLE :: string where
  "NOT_AVAILABLE = ''Error: Google Calendar connection is not available.''"


text \<open>
  \<^verbatim>\<open>timedelta(minutes=m)\<close> raises \<^verbatim>\<open>OverflowError\<close> when its days exceed 999999999 in
  magnitude; adding it to a datetime raises \<^verbatim>\<open>OverflowError\<close> when the result leaves
  the years 1 to 9999.
\<close>

definition datetime_add_minutes :: "local_datetime \<Rightarrow> int \<Rightarrow> exn + local_datetime" where
  "datetime_add_minutes t m =
     (if \<bar>m div 1440\<bar> > 999999999
      then Inl (OverflowError ''days; must have magnitude <= 999999999'')
      else
        (let r = t + m * US_PER_MINUTE in
         if 0 \<le> r \<and> r < MAXORDINAL * US_PER_DAY then Inr r
         else Inl (OverflowError ''date value out of range'')))"

text \<open>The three \<^verbatim>\<open>except\<close> clauses at the end of \<^verbatim>\<open>schedule_add\<close>, in their order.\<close>

definition add_error_text :: "string \<Rightarrow> exn \<Rightarrow> string" where
  "add_error_text time_str e =
     (if is_ParserError e then
        ''Error: Could not understand the time '' @ [CHR 0x27] @ time_str @ [CHR 0x27] @
        ''. Please use formats like '' @ [CHR 0x27] @ ''3pm'' @ [CHR 0x27] @ '', '' @
        [CHR 0x27] @ ''15:00'' @ [CHR 0x27] @ '', '' @ [CHR 0x27] @ ''tomorrow 10am'' @
        [CHR 0x27] @ '', '' @ [CHR 0x27] @ ''2025-04-20 14:30'' @ [CHR 0x27] @ ''.''
      else if is_ValueError e then
        ''Error processing time or duration. Please check your input: '' @ exn_str e
      else ''An unexpected error occurred while adding the event.'')"

definition schedule_add ::
  "'dt lib \<Rightarrow> 'p service option \<Rightarrow> string \<Rightarrow> string \<Rightarrow> int \<Rightarrow> 'p world \<Rightarrow> 'p world" where
  "schedule_add lib service summary time_str duration_minutes w =
     (if service = None then ctx_send NOT_AVAILABLE w
      else
        (case parser_parse_local lib time_str of
           Inl e \<Rightarrow> ctx_send (add_error_text time_str e) w
         | Inr start_dt \<Rightarrow>
             (case datetime_add_minutes start_dt duration_minutes of
                Inl e \<Rightarrow> ctx_send (add_error_text time_str e) w
              | Inr end_dt \<Rightarrow>
                  (let w1 = ctx_send (''Adding event '' @ [CHR 0x27] @ summary @ [CHR 0x27] @
                                      '' to Google Calendar for '' @
                                      strftime_Y_m_d_I_M_p_Z (tzname lib) start_dt @ ''...'') w
                   in case add_calendar_event lib service summary start_dt end_dt w1 of
                        (result, w2) \<Rightarrow> ctx_send result w2))))"

text \<open>The guidance sent when the requester has no list to pick from.\<close>

definition VIEW_FIRST :: string where
  "VIEW_FIRST = ''Please use `!schedule view` first to see the list of events and their IDs.''"

definition invalid_id_text :: "int \<Rightarrow> string" where
  "invalid_id_text event_index =
     ''Error: Invalid ID '' @ [CHR 0x27] @ str_int event_index @ [CHR 0x27] @
     ''. Please use `!schedule view` and provide a valid number from the list.''"

definition schedule_remove ::
  "'p service option \<Rightarrow> int \<Rightarrow> int \<Rightarrow> 'p world \<Rightarrow> 'p world" where
  "schedule_remove service author event_index w =
     (if service = None then ctx_send NOT_AVAILABLE w
      else
        (case last_viewed_events w author of
           None \<Rightarrow> ctx_send VIEW_FIRST w
         | Some user_last_events \<Rightarrow>
             if user_last_events = [] then ctx_send VIEW_FIRST w
             else
               (let target_index = event_index - 1 in
                if 0 \<le> target_index \<and> target_index < int (length user_last_events) then
                  (case user_last_events ! nat target_index of
                     (event_id_to_remove, time_str, summary) \<Rightarrow>
                       (let w1 = ctx_send (''Attempting to remove event: ['' @
                                   str_int event_index @ ''] '' @ time_str @ '': '' @ summary @
                                   '' (ID: '' @ take 6 event_id_to_remove @ ''...)...'') w
                        in case remove_calendar_event service event_id_to_remove w1 of
                             (result, w2) \<Rightarrow> ctx_send result w2))
                else ctx_send (invalid_id_text event_index) w)))"

section \<open>Example collaborators\<close>

text \<open>
  Concrete collaborators on which the theorems below are instantiated: a calendar held
  in memory, a provider every request of which fails, and library functions that know the
  strings of the examples.
\<close>

text \<open>The calendar in memory: the events with their days; deleting an unknown id is a 404.\<close>

definition memory_service :: "(date \<times> event) list service" where
  "memory_service =
     \<lparr>events_list = (\<lambda>d p. (Inr (Some (map snd (filter (\<lambda>de. fst de = d) p))), p)),
      events_insert = (\<lambda>body p.
         (Inr (Some ''https://calendar.example/new''),
          p @ [(date_of (body_start body),
                \<lparr>ev_id = Some ''new'', ev_start = None, ev_end = None,
                 ev_summary = Some (body_summary body)\<rparr>)])),
      events_delete = (\<lambda>event_id p.
         if Some event_id \<in> set (map (\<lambda>de. ev_id (snd de)) p)
         then (Inr (), filter (\<lambda>de. ev_id (snd de) \<noteq> Some event_id) p)
         else (Inl (HttpError 404 ''Not Found''), p))\<rparr>"

definition failing_service :: "exn \<Rightarrow> unit service" where
  "failing_service e =
     \<lparr>events_list = (\<lambda>d p. (Inl e, p)),
      events_insert = (\<lambda>body p. (Inl e, p)),
      events_delete = (\<lambda>event_id p. (Inl e, p))\<rparr>"

text \<open>
  Library functions for the examples: the date parser knows the weekday names, the time
  parser knows no expression, and \<open>isoparse\<close> knows three strings of 2025-04-20, taken in
  the local zone.
\<close>

definition example_lib :: "local_datetime lib" where
  "example_lib =
     \<lparr>parser_parse_date = dateutil_parse_weekday_name,
      parser_parse_local = (\<lambda>s. Inl (ParserError (''Unknown string format: '' @ s))),
      isoparse = (\<lambda>s.
         case map_of [(''2025-04-20T09:30:00'', 63880738200000000),
                      (''2025-04-20T10:30:00'', 63880741800000000),
                      (''2025-04-20'', 63880704000000000)] s of
           Some t \<Rightarrow> Inr t
         | None \<Rightarrow> Inl (ValueError (''Invalid isoformat string: '' @ s))),
      astimezone_local = Inr,
      tzname = ''UTC''\<rparr>"

text \<open>The day 2025-04-20 of the examples: a stand-up from 09:30 to 10:30 and a holiday.\<close>

definition standup :: event where
  "standup =
     \<lparr>ev_id = Some ''ev1'',
      ev_start = Some \<lparr>dateTime = Some ''2025-04-20T09:30:00'', date_key = None\<rparr>,
      ev_end = Some \<lparr>dateTime = Some ''2025-04-20T10:30:00'', date_key = None\<rparr>,
      ev_summary = Some ''Standup''\<rparr>"

definition holiday :: event where
  "holiday =
     \<lparr>ev_id = Some ''ev2'',
      ev_start = Some \<lparr>dateTime = None, date_key = Some ''2025-04-20''\<rparr>,
      ev_end = Some \<lparr>dateTime = None, date_key = Some ''2025-04-21''\<rparr>,
      ev_summary = Some ''Holiday''\<rparr>"

text \<open>An event without a start, placed on 2025-04-22.\<close>

definition startless :: event where
  "startless = \<lparr>ev_id = Some ''ev9'', ev_start = None, ev_end = None, ev_summary = None\<rparr>"

definition example_world :: "(date \<times> event) list world" where
  "example_world =
     \<lparr>provider = [(739361, standup), (739361, holiday), (739363, startless)], calls = [],
      last_viewed_events = Map.empty, sent = []\<rparr>"

text \<open>A world in which requester 7 has viewed a day of three events.\<close>

definition three_records :: "event_details list" where
  "three_records = [(''ev1'', ''09:30 AM (60 min)'', ''Standup''),
                    (''ev2'', ''All Day'', ''Holiday''),
                    (''ev3'', ''05:00 PM'', ''Review'')]"

definition viewed_world :: "(date \<times> event) list world" where
  "viewed_world =
     \<lparr>provider = [(739361, standup), (739361, holiday)], calls = [],
      last_viewed_events = [7 \<mapsto> three_records], sent = []\<rparr>"

definition unit_world :: "unit world" where
  "unit_world = \<lparr>provider = (), calls = [], last_viewed_events = Map.empty, sent = []\<rparr>"

text \<open>
  The rendered line as the specification words it, \<^verbatim>\<open>[<index>] <time-label>: <title>\<close>,
  for comparison with \<open>summary_line\<close>.
\<close>

definition spec_rendered_line :: "nat \<Rightarrow> string \<Rightarrow> string \<Rightarrow> string" where
  "spec_rendered_line idx label title =
     ''['' @ str_nat idx @ ''] '' @ label @ '': '' @ title"


section \<open>Properties of the Relative Date Resolver\<close>

lemma date_add_days_valid:
  "valid_date (d + n) \<Longrightarrow> date_add_days d n = Inr (d + n)"
  by (simp add: date_add_days_def valid_date_def)

lemma index_of_bound: "index_of xs x = Some i \<Longrightarrow> i < length xs \<and> xs ! i = x"
  by (induction xs arbitrary: i) (auto split: if_splits)

lemma weekday_range: "0 \<le> weekday d \<and> weekday d < 7"
  by (simp add: weekday_def)

lemma weekday_add: "weekday (d + n) = (weekday d + n) mod 7"
proof -
  have "(weekday d + n) mod 7 = (d + 6 + n) mod 7"
    unfolding weekday_def by (rule mod_add_left_eq)
  also have "d + 6 + n = d + n + 6"
    by simp
  finally have e: "(weekday d + n) mod 7 = (d + n + 6) mod 7" .
  show ?thesis
    by (simp only: e weekday_def [of "d + n"])
qed

lemma small_cases:
  fixes x :: int
  assumes "0 \<le> x" "x < 7"
  shows "x = 0 \<or> x = 1 \<or> x = 2 \<or> x = 3 \<or> x = 4 \<or> x = 5 \<or> x = 6"
  using assms by arith

lemma days_ahead_facts:
  fixes a t :: int
  assumes a: "0 \<le> a" "a < 7" and t: "0 \<le> t" "t < 7"
  defines "n \<equiv> (if (t - a + 7) mod 7 = 0 then 7 else (t - a + 7) mod 7)"
  shows "1 \<le> n \<and> n \<le> 7 \<and> (a + n) mod 7 = t \<and> (a = t \<longrightarrow> n = 7)"
  using small_cases [OF a] small_cases [OF t] unfolding n_def
  by (elim disjE) simp_all

text \<open>
  The weekday branch of \<open>parse_relative_date\<close>, taken on its own: whenever the general parser
  raises \<open>ParserError\<close> on a weekday name, the result is the next day of that weekday
  strictly after \<open>today\<close>, one to seven days ahead, and a week ahead when \<open>today\<close> is
  that weekday.
\<close>

lemma weekday_fallback_next_occurrence:
  assumes name: "index_of weekdays (py_strip (py_lower s)) = Some w"
    and fails: "parser_parse s D = Inl (ParserError m)"
    and range: "valid_date D" "valid_date (D + 7)"
  shows "\<exists>d. parse_relative_date parser_parse D s = Inr (Some d) \<and> D < d \<and> d - D \<le> 7 \<and>
           weekday d = int w \<and> (weekday D = int w \<longrightarrow> d = D + 7)"
proof -
  define n where "n = (if (int w - weekday D + 7) mod 7 = 0 then 7
                       else (int w - weekday D + 7) mod 7)"
  have w7: "int w < 7"
    using index_of_bound [OF name] by (simp add: weekdays_def)
  have facts: "1 \<le> n \<and> n \<le> 7 \<and> (weekday D + n) mod 7 = int w \<and> (weekday D = int w \<longrightarrow> n = 7)"
    unfolding n_def using weekday_range [of D] w7 by (intro days_ahead_facts) simp_all
  have not_kw: "py_strip (py_lower s) \<noteq> ''today''" "py_strip (py_lower s) \<noteq> ''tomorrow''"
    "py_strip (py_lower s) \<noteq> ''yesterday''"
    using name by (auto simp: weekdays_def)
  have valid: "valid_date (D + n)"
    using range facts unfolding valid_date_def by linarith
  have "parse_relative_date parser_parse D s = map_sum id Some (date_add_days D n)"
    unfolding parse_relative_date_def Let_def n_def using not_kw name fails by simp
  then have res: "parse_relative_date parser_parse D s = Inr (Some (D + n))"
    using date_add_days_valid [OF valid] by simp
  have "weekday (D + n) = int w"
    using facts by (simp add: weekday_add)
  then show ?thesis
    using res facts by auto
qed

text \<open>
  C10. For every reference date \<open>D\<close>, the expression "today" in any letter case (and with
  any white space around it) resolves to \<open>D\<close>, "tomorrow" to the day after \<open>D\<close> and
  "yesterday" to the day before, whenever that day exists in the range of
  \<^verbatim>\<open>datetime.date\<close>; the result does not depend on the general parser.
\<close>

theorem resolve_today_tomorrow_yesterday:
  "(py_strip (py_lower s) = ''today'' \<longrightarrow>
      parse_relative_date parser_parse D s = Inr (Some D)) \<and>
   (py_strip (py_lower s) = ''tomorrow'' \<and> valid_date (D + 1) \<longrightarrow>
      parse_relative_date parser_parse D s = Inr (Some (D + 1))) \<and>
   (py_strip (py_lower s) = ''yesterday'' \<and> valid_date (D - 1) \<longrightarrow>
      parse_relative_date parser_parse D s = Inr (Some (D - 1)))"
  using date_add_days_valid [of D 1] date_add_days_valid [of D "- 1"]
  by (simp add: parse_relative_date_def)

theorem resolve_today_tomorrow_yesterday_witness:
  "py_strip (py_lower ''ToDay'') = ''today'' \<and>
   parse_relative_date dateutil_parse_weekday_name 739361 ''ToDay'' = Inr (Some 739361) \<and>
   py_strip (py_lower ''TOMORROW'') = ''tomorrow'' \<and> valid_date (739361 + 1) \<and>
   parse_relative_date dateutil_parse_weekday_name 739361 ''TOMORROW'' = Inr (Some 739362) \<and>
   py_strip (py_lower '' Yesterday'') = ''yesterday'' \<and> valid_date (739361 - 1) \<and>
   parse_relative_date dateutil_parse_weekday_name 739361 '' Yesterday'' = Inr (Some 739360)"
proof -
  have t: "py_strip (py_lower ''ToDay'') = ''today''" by code_simp
  have m: "py_strip (py_lower ''TOMORROW'') = ''tomorrow''" by code_simp
  have y: "py_strip (py_lower '' Yesterday'') = ''yesterday''" by code_simp
  have v: "valid_date (739361 + 1)" "valid_date (739361 - 1)"
    by (simp_all add: valid_date_def MAXORDINAL_def)
  show ?thesis
    using t m y v
      resolve_today_tomorrow_yesterday [of "''ToDay''" dateutil_parse_weekday_name 739361]
      resolve_today_tomorrow_yesterday [of "''TOMORROW''" dateutil_parse_weekday_name 739361]
      resolve_today_tomorrow_yesterday [of "'' Yesterday''" dateutil_parse_weekday_name 739361]
    by simp
qed

text \<open>
  C1. A weekday name resolved on a day of that weekday. 2025-04-21 (day 739362) is a
  Monday. The general parser is tried before the weekday table; dateutil accepts
  "monday" and moves its default date forward by \<open>(7 - 0 + 0) mod 7 = 0\<close> days, so
  \<open>parse_relative_date\<close> returns 2025-04-21 itself and the branch that would add seven
  days is not reached.
\<close>

theorem weekday_name_resolves_to_today:
  "weekday 739362 = 0 \<and>
   dateutil_parse_weekday_name ''monday'' 739362 = Inr 739362 \<and>
   parse_relative_date dateutil_parse_weekday_name 739362 ''monday'' = Inr (Some 739362)"
  by code_simp
section \<open>Properties of the date formats\<close>

text \<open>Decimal digits of small numbers, written out.\<close>

lemma digit_char_table: "k < 10 \<Longrightarrow> digit_char k = ''0123456789'' ! k"
proof -
  assume "k < 10"
  then have "k = 0 \<or> k = 1 \<or> k = 2 \<or> k = 3 \<or> k = 4 \<or> k = 5 \<or> k = 6 \<or> k = 7 \<or> k = 8 \<or> k = 9"
    by arith
  moreover have "digit_char 0 = ''0123456789'' ! 0" "digit_char 1 = ''0123456789'' ! 1"
    "digit_char 2 = ''0123456789'' ! 2" "digit_char 3 = ''0123456789'' ! 3"
    "digit_char 4 = ''0123456789'' ! 4" "digit_char 5 = ''0123456789'' ! 5"
    "digit_char 6 = ''0123456789'' ! 6" "digit_char 7 = ''0123456789'' ! 7"
    "digit_char 8 = ''0123456789'' ! 8" "digit_char 9 = ''0123456789'' ! 9"
    by code_simp+
  ultimately show ?thesis
    by (elim disjE) simp_all
qed

lemma str_nat_1: "n < 10 \<Longrightarrow> str_nat n = [''0123456789'' ! n]"
  by (subst str_nat.simps) (simp add: digit_char_table)

lemma str_nat_2: "10 \<le> n \<Longrightarrow> n < 100 \<Longrightarrow>
    str_nat n = [''0123456789'' ! (n div 10), ''0123456789'' ! (n mod 10)]"
  by (subst str_nat.simps) (simp add: digit_char_table str_nat_1)

lemma str_nat_3:
  assumes "100 \<le> n" "n < 1000"
  shows "str_nat n = [''0123456789'' ! (n div 100), ''0123456789'' ! (n div 10 mod 10),
                      ''0123456789'' ! (n mod 10)]"
proof -
  have e: "n div 10 div 10 = n div 100"
    by arith
  have "str_nat n = str_nat (n div 10) @ [digit_char (n mod 10)]"
    using assms by (subst str_nat.simps) simp
  also have "str_nat (n div 10) =
      [''0123456789'' ! (n div 10 div 10), ''0123456789'' ! (n div 10 mod 10)]"
    using assms by (intro str_nat_2) arith+
  finally show ?thesis
    by (simp add: e digit_char_table)
qed

lemma str_nat_4:
  assumes "1000 \<le> n" "n < 10000"
  shows "str_nat n = [''0123456789'' ! (n div 1000), ''0123456789'' ! (n div 100 mod 10),
                      ''0123456789'' ! (n div 10 mod 10), ''0123456789'' ! (n mod 10)]"
proof -
  have e: "n div 10 div 100 = n div 1000" "n div 10 div 10 = n div 100"
    by arith+
  have "str_nat n = str_nat (n div 10) @ [digit_char (n mod 10)]"
    using assms by (subst str_nat.simps) simp
  also have "str_nat (n div 10) =
      [''0123456789'' ! (n div 10 div 100), ''0123456789'' ! (n div 10 div 10 mod 10),
       ''0123456789'' ! (n div 10 mod 10)]"
    using assms by (intro str_nat_3) arith+
  finally show ?thesis
    by (simp add: e digit_char_table)
qed

lemma zero_pad_2: "n < 100 \<Longrightarrow>
    zero_pad 2 n = [''0123456789'' ! (n div 10), ''0123456789'' ! (n mod 10)]"
proof (cases "n < 10")
  case True
  then show ?thesis by (simp add: zero_pad_def str_nat_1)
next
  case False
  assume "n < 100"
  with False show ?thesis by (simp add: zero_pad_def str_nat_2)
qed

text \<open>
  The calendar behind \<open>ord2ymd\<close>. A year \<open>y\<close> is a leap year when it is divisible by 4 and
  not by 100, or by 400; the days before the year \<open>y\<close> number
  \<open>365 (y - 1) + (y - 1) div 4 - (y - 1) div 100 + (y - 1) div 400\<close>. The lemmas below show
  that \<open>ord2ymd\<close> returns the year, month and day of the proleptic Gregorian calendar for
  every ordinal in the range of \<^verbatim>\<open>datetime.date\<close>.
\<close>

lemma days_before_year:
  fixes A B C E :: int
  assumes "0 \<le> B" "B \<le> 3" "0 \<le> C" "C \<le> 24" "0 \<le> E" "E \<le> 3"
    and Y: "Y = 400 * A + 100 * B + 4 * C + E"
  shows "365 * Y + Y div 4 - Y div 100 + Y div 400 =
           146097 * A + 36524 * B + 1461 * C + 365 * E"
proof -
  have d400: "Y div 400 = A"
    by (rule int_div_pos_eq [where r = "100 * B + 4 * C + E"]) (use assms in simp_all)
  have d100: "Y div 100 = 4 * A + B"
    by (rule int_div_pos_eq [where r = "4 * C + E"]) (use assms in simp_all)
  have d4: "Y div 4 = 100 * A + 25 * B + C"
    by (rule int_div_pos_eq [where r = E]) (use assms in simp_all)
  show ?thesis
    unfolding d400 d100 d4 using Y by simp
qed

lemma mod_zero_iff:
  fixes b q r :: int
  assumes r: "0 < r" "r \<le> b" and y: "y = b * q + r"
  shows "(y mod b = 0) = (r = b)"
proof (cases "r = b")
  case True
  then have "y = b * (q + 1) + 0"
    using y by (simp add: algebra_simps)
  then have "y mod b = 0"
    by (rule int_mod_pos_eq) (use r in simp_all)
  then show ?thesis
    using True by simp
next
  case False
  have "y mod b = r"
    by (rule int_mod_pos_eq [OF y]) (use r False in simp_all)
  then show ?thesis
    using False r by simp
qed

lemma leap_rule:
  fixes A B C E :: int
  assumes "0 \<le> B" "B \<le> 3" "0 \<le> C" "C \<le> 24" "0 \<le> E" "E \<le> 3"
    and y: "y = 400 * A + 100 * B + 4 * C + E + 1"
  shows "(y mod 4 = 0 \<and> (y mod 100 \<noteq> 0 \<or> y mod 400 = 0)) = (E = 3 \<and> (C \<noteq> 24 \<or> B = 3))"
proof -
  have m4: "(y mod 4 = 0) = (E + 1 = 4)"
    by (rule mod_zero_iff [where q = "100 * A + 25 * B + C"]) (use assms in simp_all)
  have m100: "(y mod 100 = 0) = (4 * C + E + 1 = 100)"
    by (rule mod_zero_iff [where q = "4 * A + B"]) (use assms in simp_all)
  have m400: "(y mod 400 = 0) = (100 * B + 4 * C + E + 1 = 400)"
    by (rule mod_zero_iff [where q = A]) (use assms in simp_all)
  have e100: "(4 * C + E + 1 = 100) = (C = 24 \<and> E = 3)"
    using assms by linarith
  have e400: "(100 * B + 4 * C + E + 1 = 400) = (B = 3 \<and> C = 24 \<and> E = 3)"
    using assms by linarith
  show ?thesis
    unfolding m4 m100 m400 e100 e400 by auto
qed


lemma month_and_day_correct:
  assumes n: "0 \<le> n" "n < 365"
  shows "\<exists>m d. month_and_day leap n = (m, d) \<and> 1 \<le> m \<and> m \<le> 12 \<and> 1 \<le> d \<and>
           d \<le> [31, if leap then 29 else 28, 31, 30, 31, 30, 31, 31, 30, 31, 30, 31] ! (m - 1) \<and>
           n = [0, 31, 59, 90, 120, 151, 181, 212, 243, 273, 304, 334] ! (m - 1) +
               (if 2 < m \<and> leap then 1 else 0) + d - 1"
proof -
  define k where "k = (n + 50) div 32"
  have kb: "32 * k \<le> n + 50" "n + 50 < 32 * k + 32"
    unfolding k_def by arith+
  then have "1 \<le> k" "k \<le> 12"
    using n by arith+
  then have dis: "k = 1 \<or> k = 2 \<or> k = 3 \<or> k = 4 \<or> k = 5 \<or> k = 6 \<or> k = 7 \<or> k = 8 \<or>
    k = 9 \<or> k = 10 \<or> k = 11 \<or> k = 12"
    by arith
  have unfold: "month_and_day leap n =
     (let month = nat k;
          preceding = DAYS_BEFORE_MONTH ! (month - 1) +
                      (if month > 2 \<and> leap then 1 else 0)
      in if preceding > n then
           (let month = month - 1;
                preceding = preceding - (DAYS_IN_MONTH ! (month - 1) +
                              (if month = 2 \<and> leap then 1 else 0))
            in (month, n - preceding + 1))
         else (month, n - preceding + 1))"
    by (simp add: month_and_day_def k_def)
  show ?thesis
    unfolding unfold using dis kb n
    by (elim disjE) (simp_all add: DAYS_BEFORE_MONTH_def DAYS_IN_MONTH_def Let_def)
qed

lemma div_mod_facts:
  fixes x k :: int
  assumes "0 < k"
  shows "x = k * (x div k) + x mod k \<and> 0 \<le> x mod k \<and> x mod k < k"
  using assms by simp

lemma ord2ymd_correct:
  assumes valid: "valid_date D"
  shows "\<exists>y m d. ord2ymd D = (y, m, d) \<and> 1 \<le> y \<and> y \<le> 9999 \<and> 1 \<le> m \<and> m \<le> 12 \<and> 1 \<le> d \<and>
           d \<le> [31, if y mod 4 = 0 \<and> (y mod 100 \<noteq> 0 \<or> y mod 400 = 0) then 29 else 28,
                 31, 30, 31, 30, 31, 31, 30, 31, 30, 31] ! (m - 1) \<and>
           D = 365 * (y - 1) + (y - 1) div 4 - (y - 1) div 100 + (y - 1) div 400 +
               [0, 31, 59, 90, 120, 151, 181, 212, 243, 273, 304, 334] ! (m - 1) +
               (if 2 < m \<and> (y mod 4 = 0 \<and> (y mod 100 \<noteq> 0 \<or> y mod 400 = 0)) then 1 else 0) + d"
proof -
  define n0 where "n0 = D - 1"
  define q400 where "q400 = n0 div 146097"
  define a where "a = n0 mod 146097"
  define q100 where "q100 = a div 36524"
  define b where "b = a mod 36524"
  define q4 where "q4 = b div 1461"
  define c where "c = b mod 1461"
  define q1 where "q1 = c div 365"
  define d0 where "d0 = c mod 365"
  define S where "S = 400 * q400 + 100 * q100 + 4 * q4 + q1"
  have n0: "0 \<le> n0" "n0 \<le> 3652058"
    using valid by (simp_all add: n0_def valid_date_def MAXORDINAL_def)
  have f400: "n0 = 146097 * q400 + a" "0 \<le> a" "a < 146097"
    using div_mod_facts [of 146097 n0] by (simp_all add: q400_def a_def)
  have f100: "a = 36524 * q100 + b" "0 \<le> b" "b < 36524"
    using div_mod_facts [of 36524 a] by (simp_all add: q100_def b_def)
  have f4: "b = 1461 * q4 + c" "0 \<le> c" "c < 1461"
    using div_mod_facts [of 1461 b] by (simp_all add: q4_def c_def)
  have f1: "c = 365 * q1 + d0" "0 \<le> d0" "d0 < 365"
    using div_mod_facts [of 365 c] by (simp_all add: q1_def d0_def)
  have q400: "0 \<le> q400" "q400 \<le> 24"
    using f400 n0 by linarith+
  have q100: "0 \<le> q100" "q100 \<le> 4"
    using f100 f400 by linarith+
  have q4: "0 \<le> q4" "q4 \<le> 24"
    using f4 f100 by linarith+
  have q1: "0 \<le> q1" "q1 \<le> 4"
    using f1 f4 by linarith+
  have D: "D = 146097 * q400 + 36524 * q100 + 1461 * q4 + 365 * q1 + d0 + 1"
    using f400 f100 f4 f1 by (simp add: n0_def)
  have unfold: "ord2ymd D =
      (if q1 = 4 \<or> q100 = 4 then (S, 12, 31)
       else case month_and_day (q1 = 3 \<and> (q4 \<noteq> 24 \<or> q100 = 3)) d0 of
              (month, day) \<Rightarrow> (S + 1, month, day))"
    by (simp add: ord2ymd_def Let_def S_def q1_def d0_def c_def q4_def b_def q100_def a_def
          q400_def n0_def)
  show ?thesis
  proof (cases "q100 = 4")
    case True
    then have "b = 0"
      using f100 f400 by linarith
    then have z: "q4 = 0" "q1 = 0" "d0 = 0"
      using f4 f1 q4 q1 by linarith+
    have q: "q400 \<le> 23"
      using D True z n0 by (simp add: n0_def)
    have y: "S = 400 * q400 + 100 * 3 + 4 * 24 + 3 + 1"
      using True z by (simp add: S_def)
    have Y: "S - 1 = 400 * q400 + 100 * 3 + 4 * 24 + 3"
      using y by simp
    have leap: "S mod 4 = 0 \<and> (S mod 100 \<noteq> 0 \<or> S mod 400 = 0)"
      using leap_rule [OF _ _ _ _ _ _ y] by simp
    have days: "365 * (S - 1) + (S - 1) div 4 - (S - 1) div 100 + (S - 1) div 400 =
        146097 * q400 + 36524 * 3 + 1461 * 24 + 365 * 3"
      by (rule days_before_year [OF _ _ _ _ _ _ Y]) simp_all
    have "ord2ymd D = (S, 12, 31)"
      using True by (simp add: unfold)
    moreover have "1 \<le> S" "S \<le> 9999"
      using y q400 q by linarith+
    moreover have "D = 365 * (S - 1) + (S - 1) div 4 - (S - 1) div 100 + (S - 1) div 400 +
        334 + 1 + 31"
      unfolding days using D True z by simp
    ultimately show ?thesis
      using leap by simp
  next
    case False
    then have q100': "q100 \<le> 3"
      using q100 by linarith
    show ?thesis
    proof (cases "q1 = 4")
      case True
      then have z: "d0 = 0"
        using f1 f4 by linarith
      have q4': "q4 \<le> 23"
        using f4 f1 f100 True z by linarith
      have y: "S = 400 * q400 + 100 * q100 + 4 * q4 + 3 + 1"
        using True by (simp add: S_def)
      have Y: "S - 1 = 400 * q400 + 100 * q100 + 4 * q4 + 3"
        using y by simp
      have "(S mod 4 = 0 \<and> (S mod 100 \<noteq> 0 \<or> S mod 400 = 0)) =
          ((3::int) = 3 \<and> (q4 \<noteq> 24 \<or> q100 = 3))"
        by (rule leap_rule [OF _ _ _ _ _ _ y]) (use q100 q100' q4 in simp_all)
      then have leap: "S mod 4 = 0 \<and> (S mod 100 \<noteq> 0 \<or> S mod 400 = 0)"
        using q4' by simp
      have days: "365 * (S - 1) + (S - 1) div 4 - (S - 1) div 100 + (S - 1) div 400 =
          146097 * q400 + 36524 * q100 + 1461 * q4 + 365 * 3"
        by (rule days_before_year [OF _ _ _ _ _ _ Y]) (use q100 q100' q4 in simp_all)
      have "ord2ymd D = (S, 12, 31)"
        using True by (simp add: unfold)
      moreover have "1 \<le> S" "S \<le> 9999"
        using y q400 q100 q100' q4 q4' by linarith+
      moreover have "D = 365 * (S - 1) + (S - 1) div 4 - (S - 1) div 100 + (S - 1) div 400 +
          334 + 1 + 31"
        unfolding days using D True z by simp
      ultimately show ?thesis
        using leap by simp
    next
      case q1_not_4: False
      then have q1': "q1 \<le> 3"
        using q1 by linarith
      define leap where "leap = (q1 = 3 \<and> (q4 \<noteq> 24 \<or> q100 = 3))"
      obtain m d where md: "month_and_day leap d0 = (m, d)" "1 \<le> m" "m \<le> 12" "1 \<le> d"
        "d \<le> [31, if leap then 29 else 28, 31, 30, 31, 30, 31, 31, 30, 31, 30, 31] ! (m - 1)"
        "d0 = [0, 31, 59, 90, 120, 151, 181, 212, 243, 273, 304, 334] ! (m - 1) +
               (if 2 < m \<and> leap then 1 else 0) + d - 1"
        using month_and_day_correct [OF f1(2) f1(3), of leap] by blast
      have y: "S + 1 = 400 * q400 + 100 * q100 + 4 * q4 + q1 + 1"
        by (simp add: S_def)
      have Y: "S + 1 - 1 = 400 * q400 + 100 * q100 + 4 * q4 + q1"
        by (simp add: S_def)
      have leap_eq: "((S + 1) mod 4 = 0 \<and> ((S + 1) mod 100 \<noteq> 0 \<or> (S + 1) mod 400 = 0)) = leap"
        unfolding leap_def
        by (rule leap_rule [OF _ _ _ _ _ _ y]) (use q100 q100' q4 q1 q1' in simp_all)
      have days: "365 * (S + 1 - 1) + (S + 1 - 1) div 4 - (S + 1 - 1) div 100 +
          (S + 1 - 1) div 400 = 146097 * q400 + 36524 * q100 + 1461 * q4 + 365 * q1"
        by (rule days_before_year [OF _ _ _ _ _ _ Y]) (use q100 q100' q4 q1 q1' in simp_all)
      have upper: "S \<le> 9998"
      proof (rule ccontr)
        assume "\<not> S \<le> 9998"
        then have big: "9999 \<le> S"
          by simp
        have "q400 = 24"
          using big q400 q100' q4 q1' unfolding S_def by linarith
        moreover from this have "q100 = 3"
          using big q100' q4 q1' unfolding S_def by linarith
        moreover from calculation have "q4 = 24"
          using big q4 q1' unfolding S_def by linarith
        moreover from calculation have "q1 = 3"
          using big q1' unfolding S_def by linarith
        ultimately show False
          using D f1 valid by (simp add: valid_date_def MAXORDINAL_def)
      qed
      have "ord2ymd D = (S + 1, m, d)"
        using False q1_not_4 md(1) by (simp add: unfold leap_def)
      moreover have "1 \<le> S + 1" "S + 1 \<le> 9999"
        using upper q400 q100 q4 q1 unfolding S_def by linarith+
      moreover have "D = 365 * (S + 1 - 1) + (S + 1 - 1) div 4 - (S + 1 - 1) div 100 +
          (S + 1 - 1) div 400 +
          [0, 31, 59, 90, 120, 151, 181, 212, 243, 273, 304, 334] ! (m - 1) +
          (if 2 < m \<and> leap then 1 else 0) + d"
        unfolding days using D md(6) by simp
      ultimately show ?thesis
        using md(2-5) unfolding leap_eq [symmetric] by blast
    qed
  qed
qed

text \<open>
  The text of \<^verbatim>\<open>strftime('%A, %B %d, %Y')\<close> written out: the names from the two tables,
  the day in two digits, the year in as many digits as it has.
\<close>

lemma strftime_A_B_d_Y_explicit:
  assumes valid: "valid_date D"
  shows "\<exists>y m d.
     1 \<le> y \<and> y \<le> 9999 \<and> 1 \<le> m \<and> m \<le> 12 \<and> 1 \<le> d \<and>
     d \<le> [31, if y mod 4 = 0 \<and> (y mod 100 \<noteq> 0 \<or> y mod 400 = 0) then 29 else 28,
           31, 30, 31, 30, 31, 31, 30, 31, 30, 31] ! (m - 1) \<and>
     D = 365 * (y - 1) + (y - 1) div 4 - (y - 1) div 100 + (y - 1) div 400 +
         [0, 31, 59, 90, 120, 151, 181, 212, 243, 273, 304, 334] ! (m - 1) +
         (if 2 < m \<and> (y mod 4 = 0 \<and> (y mod 100 \<noteq> 0 \<or> y mod 400 = 0)) then 1 else 0) + d \<and>
     strftime_A_B_d_Y D =
       [''Monday'', ''Tuesday'', ''Wednesday'', ''Thursday'', ''Friday'', ''Saturday'',
        ''Sunday''] ! nat ((D + 6) mod 7) @ '', '' @
       [''January'', ''February'', ''March'', ''April'', ''May'', ''June'', ''July'',
        ''August'', ''September'', ''October'', ''November'', ''December''] ! (m - 1) @ '' '' @
       [''0123456789'' ! (nat d div 10), ''0123456789'' ! (nat d mod 10)] @ '', '' @
       (if 1000 \<le> y then
          [''0123456789'' ! (nat y div 1000), ''0123456789'' ! (nat y div 100 mod 10),
           ''0123456789'' ! (nat y div 10 mod 10), ''0123456789'' ! (nat y mod 10)]
        else if 100 \<le> y then
          [''0123456789'' ! (nat y div 100), ''0123456789'' ! (nat y div 10 mod 10),
           ''0123456789'' ! (nat y mod 10)]
        else if 10 \<le> y then [''0123456789'' ! (nat y div 10), ''0123456789'' ! (nat y mod 10)]
        else [''0123456789'' ! nat y])"
proof -
  obtain y m d where ymd: "ord2ymd D = (y, m, d)"
    and range: "1 \<le> y" "y \<le> 9999" "1 \<le> m" "m \<le> 12" "1 \<le> d"
    and dim: "d \<le> [31, if y mod 4 = 0 \<and> (y mod 100 \<noteq> 0 \<or> y mod 400 = 0) then 29 else 28,
           31, 30, 31, 30, 31, 31, 30, 31, 30, 31] ! (m - 1)"
    and ord: "D = 365 * (y - 1) + (y - 1) div 4 - (y - 1) div 100 + (y - 1) div 400 +
         [0, 31, 59, 90, 120, 151, 181, 212, 243, 273, 304, 334] ! (m - 1) +
         (if 2 < m \<and> (y mod 4 = 0 \<and> (y mod 100 \<noteq> 0 \<or> y mod 400 = 0)) then 1 else 0) + d"
    using ord2ymd_correct [OF valid] by blast
  have "m = 1 \<or> m = 2 \<or> m = 3 \<or> m = 4 \<or> m = 5 \<or> m = 6 \<or> m = 7 \<or> m = 8 \<or> m = 9 \<or>
      m = 10 \<or> m = 11 \<or> m = 12"
    using range by arith
  then have d31: "d \<le> 31"
    using dim by (elim disjE) (simp_all split: if_splits)
  have day: "zero_pad 2 (nat d) = [''0123456789'' ! (nat d div 10), ''0123456789'' ! (nat d mod 10)]"
    using d31 range by (intro zero_pad_2) simp
  have year: "str_nat (nat y) =
       (if 1000 \<le> y then
          [''0123456789'' ! (nat y div 1000), ''0123456789'' ! (nat y div 100 mod 10),
           ''0123456789'' ! (nat y div 10 mod 10), ''0123456789'' ! (nat y mod 10)]
        else if 100 \<le> y then
          [''0123456789'' ! (nat y div 100), ''0123456789'' ! (nat y div 10 mod 10),
           ''0123456789'' ! (nat y mod 10)]
        else if 10 \<le> y then [''0123456789'' ! (nat y div 10), ''0123456789'' ! (nat y mod 10)]
        else [''0123456789'' ! nat y])"
  proof -
    consider "1000 \<le> y" | "100 \<le> y" "y < 1000" | "10 \<le> y" "y < 100" | "y < 10"
      by linarith
    then show ?thesis
    proof cases
      case 1
      then have "1000 \<le> nat y" "nat y < 10000"
        using range by simp_all
      from str_nat_4 [OF this] 1 show ?thesis by simp
    next
      case 2
      then have "100 \<le> nat y" "nat y < 1000"
        by simp_all
      from str_nat_3 [OF this] 2 show ?thesis by simp
    next
      case 3
      then have "10 \<le> nat y" "nat y < 100"
        by simp_all
      from str_nat_2 [OF this] 3 show ?thesis by simp
    next
      case 4
      then have "nat y < 10"
        by simp
      from str_nat_1 [OF this] 4 show ?thesis by simp
    qed
  qed
  have "strftime_A_B_d_Y D =
       DAY_NAMES ! nat ((D + 6) mod 7) @ '', '' @ MONTH_NAMES ! (m - 1) @ '' '' @
       zero_pad 2 (nat d) @ '', '' @ str_nat (nat y)"
    by (simp add: strftime_A_B_d_Y_def ymd weekday_def)
  then have "strftime_A_B_d_Y D =
       [''Monday'', ''Tuesday'', ''Wednesday'', ''Thursday'', ''Friday'', ''Saturday'',
        ''Sunday''] ! nat ((D + 6) mod 7) @ '', '' @
       [''January'', ''February'', ''March'', ''April'', ''May'', ''June'', ''July'',
        ''August'', ''September'', ''October'', ''November'', ''December''] ! (m - 1) @ '' '' @
       [''0123456789'' ! (nat d div 10), ''0123456789'' ! (nat d mod 10)] @ '', '' @
       (if 1000 \<le> y then
          [''0123456789'' ! (nat y div 1000), ''0123456789'' ! (nat y div 100 mod 10),
           ''0123456789'' ! (nat y div 10 mod 10), ''0123456789'' ! (nat y mod 10)]
        else if 100 \<le> y then
          [''0123456789'' ! (nat y div 100), ''0123456789'' ! (nat y div 10 mod 10),
           ''0123456789'' ! (nat y mod 10)]
        else if 10 \<le> y then [''0123456789'' ! (nat y div 10), ''0123456789'' ! (nat y mod 10)]
        else [''0123456789'' ! nat y])"
    unfolding day year DAY_NAMES_def MONTH_NAMES_def .
  then show ?thesis
    using range dim ord by blast
qed

section \<open>Properties of the Event Window Fetcher\<close>

lemma startswith_append: "startswith (p @ s) p"
  by (simp add: startswith_def)

lemma signals_error_fetch_error_text: "signals_error (fetch_error_text e)"
proof (cases e)
  case (HttpError st m)
  have "startswith (''Error:'' @ ('' An HTTP error occurred while fetching the schedule: '' @ m))
          ''Error:''"
    by (rule startswith_append)
  then show ?thesis
    using HttpError by (simp add: signals_error_def fetch_error_text_def)
qed (simp_all add: signals_error_def fetch_error_text_def startswith_def)

lemma signals_error_not_available: "signals_error ''Error: Calendar service not available.''"
  by (simp add: signals_error_def startswith_def)

lemma event_row_fields:
  assumes "event_row lib ev = Inr (event_id, time_str, title)"
  shows "ev_id ev = Some event_id \<and>
         title = (case ev_summary ev of None \<Rightarrow> ''No Title'' | Some t \<Rightarrow> t)"
  using assms
  by (auto simp: event_row_def Let_def split: option.splits sum.splits)

text \<open>
  The loop, when no pass raises: each event adds one line, numbered from the counter
  upwards, and one tuple, in the order of the events.
\<close>

lemma events_loop_rows:
  "map (event_row lib) evs = map Inr rows \<Longrightarrow>
   events_loop lib evs c summary_lines details =
     Inr (summary_lines @
            map (\<lambda>(i, event_id, time_str, title). summary_line i time_str title)
              (enumerate c rows),
          details @ rows)"
proof (induction evs arbitrary: rows c summary_lines details)
  case Nil
  then show ?case by simp
next
  case (Cons ev evs)
  then obtain r rs where rows: "rows = r # rs" and r: "event_row lib ev = Inr r"
    and rs: "map (event_row lib) evs = map Inr rs"
    by (cases rows) auto
  obtain event_id time_str title where r3: "r = (event_id, time_str, title)"
    by (cases r) auto
  show ?case
    using Cons.IH [OF rs] r by (simp add: rows r3)
qed

text \<open>
  C9. On 0999-12-31 (day 364877) the calendar in memory has no events. The sentence
  returned ends in the year as \<^verbatim>\<open>999\<close>, three digits, where the pattern
  \<^verbatim>\<open><Weekday, Month DD, YYYY>\<close> has four.
\<close>

theorem no_events_sentence_short_year:
  "valid_date 364877 \<and>
   events_list memory_service 364877 (provider example_world) =
     (Inr (Some []), provider example_world) \<and>
   fst (get_events_for_day example_lib (Some memory_service) 364877 example_world) =
     (''No events found for Tuesday, December 31, 999.'', []) \<and>
   fst (get_events_for_day example_lib (Some memory_service) 364877 example_world) \<noteq>
     (''No events found for Tuesday, December 31, 0999.'', [])"
  by code_simp


text \<open>
  C9, as the code has it. When the provider's answer for a date \<open>D\<close> has no events (no
  \<^verbatim>\<open>'items'\<close> or an empty list), \<open>get_events_for_day\<close> returns an empty record list and
  the sentence "No events found for ", the date, and a full stop. The date is written as
  the English name of its weekday, a comma, the English name of its month, the day of
  the month in two digits, a comma, and the year in decimal without padding: four digits
  from the year 1000 on, fewer below. Here \<open>year\<close>, \<open>month\<close> and \<open>day\<close> are the fields of
  \<open>D\<close> in the proleptic Gregorian calendar: the days before the year, the days before
  the month and the day add up to the ordinal \<open>D\<close>.
\<close>

theorem no_events_sentence:
  assumes list: "events_list svc D (provider w) = (Inr items, p')"
    and none: "items = None \<or> items = Some []"
    and valid: "valid_date D"
  shows "\<exists>year month day.
     1 \<le> year \<and> year \<le> 9999 \<and> 1 \<le> month \<and> month \<le> 12 \<and> 1 \<le> day \<and>
     day \<le> [31, if year mod 4 = 0 \<and> (year mod 100 \<noteq> 0 \<or> year mod 400 = 0) then 29 else 28,
             31, 30, 31, 30, 31, 31, 30, 31, 30, 31] ! (month - 1) \<and>
     D = 365 * (year - 1) + (year - 1) div 4 - (year - 1) div 100 + (year - 1) div 400 +
         [0, 31, 59, 90, 120, 151, 181, 212, 243, 273, 304, 334] ! (month - 1) +
         (if 2 < month \<and> (year mod 4 = 0 \<and> (year mod 100 \<noteq> 0 \<or> year mod 400 = 0))
          then 1 else 0) + day \<and>
     fst (get_events_for_day lib (Some svc) D w) =
       (''No events found for '' @
        [''Monday'', ''Tuesday'', ''Wednesday'', ''Thursday'', ''Friday'', ''Saturday'',
         ''Sunday''] ! nat ((D + 6) mod 7) @ '', '' @
        [''January'', ''February'', ''March'', ''April'', ''May'', ''June'', ''July'',
         ''August'', ''September'', ''October'', ''November'', ''December''] ! (month - 1) @
        '' '' @
        [''0123456789'' ! (nat day div 10), ''0123456789'' ! (nat day mod 10)] @ '', '' @
        (if 1000 \<le> year then
           [''0123456789'' ! (nat year div 1000), ''0123456789'' ! (nat year div 100 mod 10),
            ''0123456789'' ! (nat year div 10 mod 10), ''0123456789'' ! (nat year mod 10)]
         else if 100 \<le> year then
           [''0123456789'' ! (nat year div 100), ''0123456789'' ! (nat year div 10 mod 10),
            ''0123456789'' ! (nat year mod 10)]
         else if 10 \<le> year then
           [''0123456789'' ! (nat year div 10), ''0123456789'' ! (nat year mod 10)]
         else [''0123456789'' ! nat year]) @
        ''.'', [])"
proof -
  have res: "fst (get_events_for_day lib (Some svc) D w) =
           (''No events found for '' @ strftime_A_B_d_Y D @ ''.'', [])"
    using list none by (auto simp: get_events_for_day_def)
  obtain y m d where r: "1 \<le> y" "y \<le> 9999" "1 \<le> m" "m \<le> 12" "1 \<le> d"
    "d \<le> [31, if y mod 4 = 0 \<and> (y mod 100 \<noteq> 0 \<or> y mod 400 = 0) then 29 else 28,
           31, 30, 31, 30, 31, 31, 30, 31, 30, 31] ! (m - 1)"
    "D = 365 * (y - 1) + (y - 1) div 4 - (y - 1) div 100 + (y - 1) div 400 +
         [0, 31, 59, 90, 120, 151, 181, 212, 243, 273, 304, 334] ! (m - 1) +
         (if 2 < m \<and> (y mod 4 = 0 \<and> (y mod 100 \<noteq> 0 \<or> y mod 400 = 0)) then 1 else 0) + d"
    and literal: "strftime_A_B_d_Y D =
       [''Monday'', ''Tuesday'', ''Wednesday'', ''Thursday'', ''Friday'', ''Saturday'',
        ''Sunday''] ! nat ((D + 6) mod 7) @ '', '' @
       [''January'', ''February'', ''March'', ''April'', ''May'', ''June'', ''July'',
        ''August'', ''September'', ''October'', ''November'', ''December''] ! (m - 1) @ '' '' @
       [''0123456789'' ! (nat d div 10), ''0123456789'' ! (nat d mod 10)] @ '', '' @
       (if 1000 \<le> y then
          [''0123456789'' ! (nat y div 1000), ''0123456789'' ! (nat y div 100 mod 10),
           ''0123456789'' ! (nat y div 10 mod 10), ''0123456789'' ! (nat y mod 10)]
        else if 100 \<le> y then
          [''0123456789'' ! (nat y div 100), ''0123456789'' ! (nat y div 10 mod 10),
           ''0123456789'' ! (nat y mod 10)]
        else if 10 \<le> y then [''0123456789'' ! (nat y div 10), ''0123456789'' ! (nat y mod 10)]
        else [''0123456789'' ! nat y])"
    using strftime_A_B_d_Y_explicit [OF valid] by blast
  have sentence: "fst (get_events_for_day lib (Some svc) D w) =
       (''No events found for '' @
        ([''Monday'', ''Tuesday'', ''Wednesday'', ''Thursday'', ''Friday'', ''Saturday'',
         ''Sunday''] ! nat ((D + 6) mod 7) @ '', '' @
        [''January'', ''February'', ''March'', ''April'', ''May'', ''June'', ''July'',
         ''August'', ''September'', ''October'', ''November'', ''December''] ! (m - 1) @
        '' '' @
        [''0123456789'' ! (nat d div 10), ''0123456789'' ! (nat d mod 10)] @ '', '' @
        (if 1000 \<le> y then
           [''0123456789'' ! (nat y div 1000), ''0123456789'' ! (nat y div 100 mod 10),
            ''0123456789'' ! (nat y div 10 mod 10), ''0123456789'' ! (nat y mod 10)]
         else if 100 \<le> y then
           [''0123456789'' ! (nat y div 100), ''0123456789'' ! (nat y div 10 mod 10),
            ''0123456789'' ! (nat y mod 10)]
         else if 10 \<le> y then
           [''0123456789'' ! (nat y div 10), ''0123456789'' ! (nat y mod 10)]
         else [''0123456789'' ! nat y])) @
        ''.'', [])"
    unfolding res literal by (rule refl)
  have sentence': "fst (get_events_for_day lib (Some svc) D w) =
       (''No events found for '' @
        [''Monday'', ''Tuesday'', ''Wednesday'', ''Thursday'', ''Friday'', ''Saturday'',
         ''Sunday''] ! nat ((D + 6) mod 7) @ '', '' @
        [''January'', ''February'', ''March'', ''April'', ''May'', ''June'', ''July'',
         ''August'', ''September'', ''October'', ''November'', ''December''] ! (m - 1) @
        '' '' @
        [''0123456789'' ! (nat d div 10), ''0123456789'' ! (nat d mod 10)] @ '', '' @
        (if 1000 \<le> y then
           [''0123456789'' ! (nat y div 1000), ''0123456789'' ! (nat y div 100 mod 10),
            ''0123456789'' ! (nat y div 10 mod 10), ''0123456789'' ! (nat y mod 10)]
         else if 100 \<le> y then
           [''0123456789'' ! (nat y div 100), ''0123456789'' ! (nat y div 10 mod 10),
            ''0123456789'' ! (nat y mod 10)]
         else if 10 \<le> y then
           [''0123456789'' ! (nat y div 10), ''0123456789'' ! (nat y mod 10)]
         else [''0123456789'' ! nat y]) @
        ''.'', [])"
    using sentence by (simp only: append_assoc)
  show ?thesis
    using r sentence'
    by (intro exI [of _ y] exI [of _ m] exI [of _ d] conjI) assumption+
qed


theorem no_events_sentence_witness:
  "events_list memory_service 739362 (provider example_world) =
     (Inr (Some []), provider example_world) \<and>
   valid_date 739362 \<and>
   fst (get_events_for_day example_lib (Some memory_service) 739362 example_world) =
     (''No events found for Monday, April 21, 2025.'', []) \<and>
   (\<exists>year month day.
     1 \<le> year \<and> year \<le> 9999 \<and> 1 \<le> month \<and> month \<le> 12 \<and> 1 \<le> day \<and>
     day \<le> [31, if year mod 4 = 0 \<and> (year mod 100 \<noteq> 0 \<or> year mod 400 = 0) then 29 else 28,
             31, 30, 31, 30, 31, 31, 30, 31, 30, 31] ! (month - 1) \<and>
     739362 = 365 * (year - 1) + (year - 1) div 4 - (year - 1) div 100 + (year - 1) div 400 +
         [0, 31, 59, 90, 120, 151, 181, 212, 243, 273, 304, 334] ! (month - 1) +
         (if 2 < month \<and> (year mod 4 = 0 \<and> (year mod 100 \<noteq> 0 \<or> year mod 400 = 0))
          then 1 else 0) + day \<and>
     fst (get_events_for_day example_lib (Some memory_service) 739362 example_world) =
       (''No events found for '' @
        [''Monday'', ''Tuesday'', ''Wednesday'', ''Thursday'', ''Friday'', ''Saturday'',
         ''Sunday''] ! nat ((739362 + 6) mod 7) @ '', '' @
        [''January'', ''February'', ''March'', ''April'', ''May'', ''June'', ''July'',
         ''August'', ''September'', ''October'', ''November'', ''December''] ! (month - 1) @
        '' '' @
        [''0123456789'' ! (nat day div 10), ''0123456789'' ! (nat day mod 10)] @ '', '' @
        (if 1000 \<le> year then
           [''0123456789'' ! (nat year div 1000), ''0123456789'' ! (nat year div 100 mod 10),
            ''0123456789'' ! (nat year div 10 mod 10), ''0123456789'' ! (nat year mod 10)]
         else if 100 \<le> year then
           [''0123456789'' ! (nat year div 100), ''0123456789'' ! (nat year div 10 mod 10),
            ''0123456789'' ! (nat year mod 10)]
         else if 10 \<le> year then
           [''0123456789'' ! (nat year div 10), ''0123456789'' ! (nat year mod 10)]
         else [''0123456789'' ! nat year]) @
        ''.'', []))"
proof -
  have l: "events_list memory_service 739362 (provider example_world) =
             (Inr (Some []), provider example_world)"
    by code_simp
  have n: "Some ([] :: event list) = None \<or> Some ([] :: event list) = Some []"
    by simp
  have v: "valid_date 739362"
    by (simp add: valid_date_def MAXORDINAL_def)
  have t: "fst (get_events_for_day example_lib (Some memory_service) 739362 example_world) =
     (''No events found for Monday, April 21, 2025.'', [])"
    by code_simp
  have inst: "\<exists>year month day.
     1 \<le> year \<and> year \<le> 9999 \<and> 1 \<le> month \<and> month \<le> 12 \<and> 1 \<le> day \<and>
     day \<le> [31, if year mod 4 = 0 \<and> (year mod 100 \<noteq> 0 \<or> year mod 400 = 0) then 29 else 28,
             31, 30, 31, 30, 31, 31, 30, 31, 30, 31] ! (month - 1) \<and>
     739362 = 365 * (year - 1) + (year - 1) div 4 - (year - 1) div 100 + (year - 1) div 400 +
         [0, 31, 59, 90, 120, 151, 181, 212, 243, 273, 304, 334] ! (month - 1) +
         (if 2 < month \<and> (year mod 4 = 0 \<and> (year mod 100 \<noteq> 0 \<or> year mod 400 = 0))
          then 1 else 0) + day \<and>
     fst (get_events_for_day example_lib (Some memory_service) 739362 example_world) =
       (''No events found for '' @
        [''Monday'', ''Tuesday'', ''Wednesday'', ''Thursday'', ''Friday'', ''Saturday'',
         ''Sunday''] ! nat ((739362 + 6) mod 7) @ '', '' @
        [''January'', ''February'', ''March'', ''April'', ''May'', ''June'', ''July'',
         ''August'', ''September'', ''October'', ''November'', ''December''] ! (month - 1) @
        '' '' @
        [''0123456789'' ! (nat day div 10), ''0123456789'' ! (nat day mod 10)] @ '', '' @
        (if 1000 \<le> year then
           [''0123456789'' ! (nat year div 1000), ''0123456789'' ! (nat year div 100 mod 10),
            ''0123456789'' ! (nat year div 10 mod 10), ''0123456789'' ! (nat year mod 10)]
         else if 100 \<le> year then
           [''0123456789'' ! (nat year div 100), ''0123456789'' ! (nat year div 10 mod 10),
            ''0123456789'' ! (nat year mod 10)]
         else if 10 \<le> year then
           [''0123456789'' ! (nat year div 10), ''0123456789'' ! (nat year mod 10)]
         else [''0123456789'' ! nat year]) @
        ''.'', [])"
    by (rule no_events_sentence [OF l n v])
  show ?thesis
    using l v t inst by (intro conjI) assumption+
qed

text \<open>
  C4. \<open>get_events_for_day\<close> returns a pair in every case. When the request to the
  provider raises \<open>e\<close>, or a pass of the loop over the events raises \<open>e\<close>, the pair is the
  error text of \<open>e\<close> with an empty record list; without a service it is the "not
  available" text with an empty record list. Each of these texts passes the test the
  daily summary uses to recognise a failure.
\<close>

theorem fetch_fails_softly:
  "(events_list svc D (provider w) = (Inl e, p') \<longrightarrow>
      fst (get_events_for_day lib (Some svc) D w) = (fetch_error_text e, [])) \<and>
   (events_list svc D (provider w) = (Inr (Some evs), p') \<and> evs \<noteq> [] \<and>
    events_loop lib evs 1 [''**Schedule for '' @ strftime_A_B_d_Y D @ '':**''] [] = Inl e \<longrightarrow>
      fst (get_events_for_day lib (Some svc) D w) = (fetch_error_text e, [])) \<and>
   fst (get_events_for_day lib None D w) = (''Error: Calendar service not available.'', []) \<and>
   signals_error (fetch_error_text e) \<and>
   signals_error ''Error: Calendar service not available.''"
  using signals_error_fetch_error_text [of e] signals_error_not_available
  by (auto simp: get_events_for_day_def)

theorem fetch_fails_softly_witness:
  "events_list (failing_service (HttpError 503 ''Service Unavailable'')) 739361
     (provider unit_world) = (Inl (HttpError 503 ''Service Unavailable''), ()) \<and>
   fst (get_events_for_day example_lib
          (Some (failing_service (HttpError 503 ''Service Unavailable''))) 739361 unit_world) =
     (''Error: An HTTP error occurred while fetching the schedule: Service Unavailable'', []) \<and>
   signals_error
     ''Error: An HTTP error occurred while fetching the schedule: Service Unavailable'' \<and>
   events_list memory_service 739363 (provider example_world) =
     (Inr (Some [startless]), provider example_world) \<and>
   [startless] \<noteq> [] \<and>
   events_loop example_lib [startless] 1
     [''**Schedule for '' @ strftime_A_B_d_Y 739363 @ '':**''] [] =
     Inl (KeyError ([CHR 0x27] @ ''start'' @ [CHR 0x27])) \<and>
   fst (get_events_for_day example_lib (Some memory_service) 739363 example_world) =
     (''An unexpected error occurred while fetching the schedule: '' @ [CHR 0x27] @ ''start'' @
      [CHR 0x27], []) \<and>
   signals_error (''An unexpected error occurred while fetching the schedule: '' @
                  [CHR 0x27] @ ''start'' @ [CHR 0x27])"
proof -
  let ?e = "HttpError 503 ''Service Unavailable''"
  let ?k = "KeyError ([CHR 0x27] @ ''start'' @ [CHR 0x27])"
  have l: "events_list (failing_service ?e) 739361 (provider unit_world) = (Inl ?e, ())"
    by (simp add: failing_service_def)
  have t: "fetch_error_text ?e =
             ''Error: An HTTP error occurred while fetching the schedule: Service Unavailable''"
    by (simp add: fetch_error_text_def)
  have m: "events_list memory_service 739363 (provider example_world) =
             (Inr (Some [startless]), provider example_world)"
    by code_simp
  have r: "events_loop example_lib [startless] 1
             [''**Schedule for '' @ strftime_A_B_d_Y 739363 @ '':**''] [] = Inl ?k"
    by (simp add: event_row_def startless_def)
  have u: "fetch_error_text ?k =
             ''An unexpected error occurred while fetching the schedule: '' @ [CHR 0x27] @
             ''start'' @ [CHR 0x27]"
    by (simp add: fetch_error_text_def)
  have first: "fst (get_events_for_day example_lib (Some (failing_service ?e)) 739361 unit_world) =
      (fetch_error_text ?e, []) \<and> signals_error (fetch_error_text ?e)"
    using l fetch_fails_softly [of "failing_service ?e" 739361 unit_world ?e "()" example_lib "[]"]
    by blast
  have second: "fst (get_events_for_day example_lib (Some memory_service) 739363 example_world) =
      (fetch_error_text ?k, []) \<and> signals_error (fetch_error_text ?k)"
    using m r
      fetch_fails_softly [of memory_service 739363 example_world ?k "provider example_world"
        example_lib "[startless]"]
    by blast
  show ?thesis
    using l m r first second unfolding t u by simp
qed

text \<open>
  C3. The day 2025-04-20 of the example, a stand-up from 09:30 to 10:30 and a holiday:
  the rendered summary is a header and two lines, and neither line is of the form
  \<^verbatim>\<open>[<index>] <time-label>: <title>\<close>; each begins with the index set in backticks.
  On 2025-04-22 the provider answers with one event that has no \<^verbatim>\<open>'start'\<close>: the result
  is an error text and no record.
\<close>

theorem rendered_line_differs_from_spec:
  "fst (get_events_for_day example_lib (Some memory_service) 739361 example_world) =
     (join [CHR 0x0A]
        [''**Schedule for Sunday, April 20, 2025:**'',
         ''`[1]` 09:30 AM (60 min): Standup'',
         ''`[2]` All Day: Holiday''],
      [(''ev1'', ''09:30 AM (60 min)'', ''Standup''), (''ev2'', ''All Day'', ''Holiday'')]) \<and>
   spec_rendered_line 1 ''09:30 AM (60 min)'' ''Standup'' = ''[1] 09:30 AM (60 min): Standup'' \<and>
   spec_rendered_line 1 ''09:30 AM (60 min)'' ''Standup'' \<notin>
     set [''**Schedule for Sunday, April 20, 2025:**'',
          ''`[1]` 09:30 AM (60 min): Standup'',
          ''`[2]` All Day: Holiday''] \<and>
   spec_rendered_line 2 ''All Day'' ''Holiday'' \<notin>
     set [''**Schedule for Sunday, April 20, 2025:**'',
          ''`[1]` 09:30 AM (60 min): Standup'',
          ''`[2]` All Day: Holiday''] \<and>
   events_list memory_service 739363 (provider example_world) =
     (Inr (Some [startless]), provider example_world) \<and>
   fst (get_events_for_day example_lib (Some memory_service) 739363 example_world) =
     (''An unexpected error occurred while fetching the schedule: '' @ [CHR 0x27] @ ''start'' @
      [CHR 0x27], [])"
  by code_simp

text \<open>
  C3, as the code has it. When the provider's answer for the day \<open>D\<close> is \<open>N \<ge> 1\<close> events
  and no pass of the loop raises, with \<open>rows\<close> the tuples \<open>(id, time-label, title)\<close> of the
  events in the provider's order: the rendered summary is the header line followed by
  one line per event, the \<open>i\<close>-th being \<^verbatim>\<open>`[i]` <time-label>: <title>\<close> with the label and
  title of the \<open>i\<close>-th tuple, joined by newlines and numbered 1 to \<open>N\<close>; the record list is
  \<open>rows\<close>, of length \<open>N\<close>; the \<open>k\<close>-th tuple carries the id of the \<open>k\<close>-th event and its
  title (or "No Title").
\<close>

theorem rendered_summary_matches_records:
  assumes list: "events_list svc D (provider w) = (Inr (Some evs), p')"
    and some: "evs \<noteq> []"
    and rows: "map (event_row lib) evs = map Inr rows"
  shows "fst (get_events_for_day lib (Some svc) D w) =
           (join [CHR 0x0A]
              ((''**Schedule for '' @ strftime_A_B_d_Y D @ '':**'') #
               map (\<lambda>(i, event_id, time_str, title).
                      ''`['' @ str_nat i @ '']` '' @ time_str @ '': '' @ title)
                 (enumerate 1 rows)),
            rows) \<and>
         length rows = length evs \<and>
         (\<forall>k < length evs.
            ev_id (evs ! k) = Some (fst (rows ! k)) \<and>
            snd (snd (rows ! k)) =
              (case ev_summary (evs ! k) of None \<Rightarrow> ''No Title'' | Some t \<Rightarrow> t))"
proof -
  have len: "length rows = length evs"
    using arg_cong [OF rows, of length] by simp
  have loop: "events_loop lib evs 1 [''**Schedule for '' @ strftime_A_B_d_Y D @ '':**''] [] =
      Inr ([''**Schedule for '' @ strftime_A_B_d_Y D @ '':**''] @
             map (\<lambda>(i, event_id, time_str, title). summary_line i time_str title)
               (enumerate 1 rows),
           [] @ rows)"
    by (rule events_loop_rows [OF rows])
  have res: "fst (get_events_for_day lib (Some svc) D w) =
           (join [CHR 0x0A]
              ((''**Schedule for '' @ strftime_A_B_d_Y D @ '':**'') #
               map (\<lambda>(i, event_id, time_str, title). summary_line i time_str title)
                 (enumerate 1 rows)),
            rows)"
    using list some loop by (simp add: get_events_for_day_def)
  have fields: "ev_id (evs ! k) = Some (fst (rows ! k)) \<and>
            snd (snd (rows ! k)) =
              (case ev_summary (evs ! k) of None \<Rightarrow> ''No Title'' | Some t \<Rightarrow> t)"
    if k: "k < length evs" for k
  proof -
    have "map (event_row lib) evs ! k = map Inr rows ! k"
      using rows by simp
    then have "event_row lib (evs ! k) = Inr (rows ! k)"
      using k len by simp
    then have "event_row lib (evs ! k) =
                 Inr (fst (rows ! k), fst (snd (rows ! k)), snd (snd (rows ! k)))"
      by simp
    from event_row_fields [OF this] show ?thesis .
  qed
  show ?thesis
    using res len fields by (simp add: summary_line_def)
qed

theorem rendered_summary_matches_records_witness:
  "events_list memory_service 739361 (provider example_world) =
     (Inr (Some [standup, holiday]), provider example_world) \<and>
   [standup, holiday] \<noteq> [] \<and>
   map (event_row example_lib) [standup, holiday] =
     map Inr [(''ev1'', ''09:30 AM (60 min)'', ''Standup''), (''ev2'', ''All Day'', ''Holiday'')] \<and>
   fst (get_events_for_day example_lib (Some memory_service) 739361 example_world) =
     (join [CHR 0x0A]
        ((''**Schedule for '' @ strftime_A_B_d_Y 739361 @ '':**'') #
         map (\<lambda>(i, event_id, time_str, title).
                ''`['' @ str_nat i @ '']` '' @ time_str @ '': '' @ title)
           (enumerate 1
              [(''ev1'', ''09:30 AM (60 min)'', ''Standup''), (''ev2'', ''All Day'', ''Holiday'')])),
      [(''ev1'', ''09:30 AM (60 min)'', ''Standup''), (''ev2'', ''All Day'', ''Holiday'')])"
proof -
  have l: "events_list memory_service 739361 (provider example_world) =
             (Inr (Some [standup, holiday]), provider example_world)"
    by code_simp
  have n: "[standup, holiday] \<noteq> []"
    by simp
  have r: "map (event_row example_lib) [standup, holiday] =
     map Inr [(''ev1'', ''09:30 AM (60 min)'', ''Standup''), (''ev2'', ''All Day'', ''Holiday'')]"
    by code_simp
  show ?thesis
    using l n r rendered_summary_matches_records [OF l n r] by blast
qed

section \<open>Properties of the commands\<close>

lemma ctx_send_frame [simp]:
  "calls (ctx_send text w) = calls w"
  "provider (ctx_send text w) = provider w"
  "last_viewed_events (ctx_send text w) = last_viewed_events w"
  "sent (ctx_send text w) = sent w @ [Send text]"
  by (simp_all add: ctx_send_def)

lemma remove_calendar_event_effect:
  "calls (snd (remove_calendar_event (Some svc) event_id w)) = calls w @ [DeleteCall event_id] \<and>
   provider (snd (remove_calendar_event (Some svc) event_id w)) =
     snd (events_delete svc event_id (provider w)) \<and>
   last_viewed_events (snd (remove_calendar_event (Some svc) event_id w)) =
     last_viewed_events w \<and>
   sent (snd (remove_calendar_event (Some svc) event_id w)) = sent w"
  by (auto simp: remove_calendar_event_def Let_def split: prod.splits sum.splits exn.splits)

lemma remove_calendar_event_None: "remove_calendar_event None event_id w =
    (''Error: Calendar service not available.'', w)"
  by (simp add: remove_calendar_event_def)

lemma remove_calendar_event_frame:
  "remove_calendar_event service event_id w1 = (result, w2) \<Longrightarrow>
   last_viewed_events w2 = last_viewed_events w1"
  by (auto simp: remove_calendar_event_def Let_def
           split: option.splits prod.splits sum.splits exn.splits if_splits)

text \<open>
  C8. \<open>schedule_remove\<close> leaves \<open>last_viewed_events\<close> as it was, for every requester,
  index and outcome of the removal: no snapshot is modified, fetched again or renumbered.
\<close>

theorem remove_keeps_snapshots:
  "last_viewed_events (schedule_remove service author event_index w) = last_viewed_events w"
  by (auto simp: schedule_remove_def Let_def split: option.splits prod.splits
           dest: remove_calendar_event_frame)

lemma schedule_remove_in_range:
  assumes "last_viewed_events w author = Some records"
    and "1 \<le> i" "i \<le> int (length records)"
  shows "schedule_remove (Some svc) author i w =
     (case records ! nat (i - 1) of
        (event_id_to_remove, time_str, summary) \<Rightarrow>
          (case remove_calendar_event (Some svc) event_id_to_remove
                  (ctx_send (''Attempting to remove event: ['' @ str_int i @ ''] '' @ time_str @
                     '': '' @ summary @ '' (ID: '' @ take 6 event_id_to_remove @ ''...)...'') w) of
             (result, w2) \<Rightarrow> ctx_send result w2))"
proof -
  have "records \<noteq> []" using assms by auto
  then show ?thesis
    using assms by (simp add: schedule_remove_def Let_def)
qed

lemma schedule_remove_no_snapshot:
  assumes "last_viewed_events w author = None \<or> last_viewed_events w author = Some []"
  shows "schedule_remove (Some svc) author i w = ctx_send VIEW_FIRST w"
  using assms by (auto simp: schedule_remove_def)

lemma schedule_remove_out_of_range:
  assumes "last_viewed_events w author = Some records" "records \<noteq> []"
    and "i < 1 \<or> int (length records) < i"
  shows "schedule_remove (Some svc) author i w = ctx_send (invalid_id_text i) w"
  using assms by (auto simp: schedule_remove_def Let_def)

text \<open>
  C2, as the code has it. Without a service the only effect of \<open>schedule_remove\<close> is the
  "not available" text. With a service: when the requester has a snapshot \<open>records\<close>
  and \<open>1 \<le> i \<le> length records\<close>, \<open>schedule_remove\<close> issues one request, the deletion of
  the id of \<open>records[i - 1]\<close>, and the provider moves as that request moves it; distinct
  indices select distinct ids when the ids of the snapshot are distinct. With no snapshot
  or an empty one the only effect is the guidance to view first, and with an index out of
  range the only effect is the message that quotes the rejected index: no request is
  issued and the provider is unchanged.
\<close>

theorem remove_by_display_index:
  "(last_viewed_events w author = Some records \<and> 1 \<le> i \<and> i \<le> int (length records) \<longrightarrow>
      calls (schedule_remove (Some svc) author i w) =
        calls w @ [DeleteCall (fst (records ! nat (i - 1)))] \<and>
      provider (schedule_remove (Some svc) author i w) =
        snd (events_delete svc (fst (records ! nat (i - 1))) (provider w))) \<and>
   (last_viewed_events w author = Some records \<and> 1 \<le> i \<and> i \<le> int (length records) \<and>
    1 \<le> j \<and> j \<le> int (length records) \<and> i \<noteq> j \<and> distinct (map fst records) \<longrightarrow>
      fst (records ! nat (i - 1)) \<noteq> fst (records ! nat (j - 1))) \<and>
   (last_viewed_events w author = None \<or> last_viewed_events w author = Some [] \<longrightarrow>
      schedule_remove (Some svc) author i w = w\<lparr>sent := sent w @ [Send VIEW_FIRST]\<rparr>) \<and>
   (last_viewed_events w author = Some records \<and> records \<noteq> [] \<and>
    (i < 1 \<or> int (length records) < i) \<longrightarrow>
      schedule_remove (Some svc) author i w = w\<lparr>sent := sent w @ [Send (invalid_id_text i)]\<rparr>) \<and>
   schedule_remove None author i w =
     w\<lparr>sent := sent w @ [Send ''Error: Google Calendar connection is not available.'']\<rparr>"
proof (intro conjI impI)
  assume a: "last_viewed_events w author = Some records \<and> 1 \<le> i \<and> i \<le> int (length records)"
  obtain event_id time_str summary where r: "records ! nat (i - 1) = (event_id, time_str, summary)"
    by (cases "records ! nat (i - 1)") auto
  have eq: "schedule_remove (Some svc) author i w =
      ctx_send (fst (remove_calendar_event (Some svc) event_id
                  (ctx_send (''Attempting to remove event: ['' @ str_int i @ ''] '' @ time_str @
                     '': '' @ summary @ '' (ID: '' @ take 6 event_id @ ''...)...'') w)))
        (snd (remove_calendar_event (Some svc) event_id
                  (ctx_send (''Attempting to remove event: ['' @ str_int i @ ''] '' @ time_str @
                     '': '' @ summary @ '' (ID: '' @ take 6 event_id @ ''...)...'') w)))"
    using a schedule_remove_in_range [of w author records i svc]
    by (simp add: r split: prod.splits)
  show "calls (schedule_remove (Some svc) author i w) =
        calls w @ [DeleteCall (fst (records ! nat (i - 1)))]"
    unfolding eq using remove_calendar_event_effect [of svc event_id] by (simp add: r)
  show "provider (schedule_remove (Some svc) author i w) =
        snd (events_delete svc (fst (records ! nat (i - 1))) (provider w))"
    unfolding eq using remove_calendar_event_effect [of svc event_id] by (simp add: r)
next
  assume a: "last_viewed_events w author = Some records \<and> 1 \<le> i \<and> i \<le> int (length records) \<and>
    1 \<le> j \<and> j \<le> int (length records) \<and> i \<noteq> j \<and> distinct (map fst records)"
  then have b: "nat (i - 1) < length records" "nat (j - 1) < length records"
    "nat (i - 1) \<noteq> nat (j - 1)" and d: "distinct (map fst records)"
    by auto
  have "map fst records ! nat (i - 1) \<noteq> map fst records ! nat (j - 1)"
    using b d nth_eq_iff_index_eq [of "map fst records" "nat (i - 1)" "nat (j - 1)"] by simp
  then show "fst (records ! nat (i - 1)) \<noteq> fst (records ! nat (j - 1))"
    using b by simp
next
  assume "last_viewed_events w author = None \<or> last_viewed_events w author = Some []"
  then show "schedule_remove (Some svc) author i w = w\<lparr>sent := sent w @ [Send VIEW_FIRST]\<rparr>"
    using schedule_remove_no_snapshot [of w author svc i] by (simp add: ctx_send_def)
next
  assume "last_viewed_events w author = Some records \<and> records \<noteq> [] \<and>
    (i < 1 \<or> int (length records) < i)"
  then show "schedule_remove (Some svc) author i w = w\<lparr>sent := sent w @ [Send (invalid_id_text i)]\<rparr>"
    using schedule_remove_out_of_range [of w author records i svc] by (simp add: ctx_send_def)
next
  show "schedule_remove None author i w =
     w\<lparr>sent := sent w @ [Send ''Error: Google Calendar connection is not available.'']\<rparr>"
    by (simp add: schedule_remove_def ctx_send_def NOT_AVAILABLE_def)
qed


theorem remove_by_display_index_witness:
  "last_viewed_events viewed_world 7 = Some three_records \<and> (1::int) \<le> 2 \<and>
   (2::int) \<le> int (length three_records) \<and>
   calls (schedule_remove (Some memory_service) 7 2 viewed_world) = [DeleteCall ''ev2''] \<and>
   (1::int) \<le> 3 \<and> (3::int) \<le> int (length three_records) \<and> (2::int) \<noteq> 3 \<and>
   distinct (map fst three_records) \<and>
   fst (three_records ! nat (2 - 1)) \<noteq> fst (three_records ! nat (3 - 1)) \<and>
   last_viewed_events viewed_world 8 = None \<and>
   schedule_remove (Some memory_service) 8 1 viewed_world =
     viewed_world\<lparr>sent := sent viewed_world @ [Send VIEW_FIRST]\<rparr> \<and>
   three_records \<noteq> [] \<and> int (length three_records) < 4 \<and>
   schedule_remove (Some memory_service) 7 4 viewed_world =
     viewed_world\<lparr>sent := sent viewed_world @ [Send (invalid_id_text 4)]\<rparr>"
proof -
  have c: "last_viewed_events viewed_world 7 = Some three_records"
    "last_viewed_events viewed_world 8 = None" "calls viewed_world = []"
    by (simp_all add: viewed_world_def)
  have r: "length three_records = 3" "three_records ! nat (2 - 1) = (''ev2'', ''All Day'', ''Holiday'')"
    "distinct (map fst three_records)" "three_records \<noteq> []"
    by (simp_all add: three_records_def)
  show ?thesis
    using c r
      remove_by_display_index [of viewed_world 7 three_records 2 memory_service 3]
      remove_by_display_index [of viewed_world 8 three_records 1 memory_service 1]
      remove_by_display_index [of viewed_world 7 three_records 4 memory_service 4]
    by simp
qed

text \<open>
  C2. Requester 7 has a snapshot of three records, so the acceptable range is 1 to 3. The
  message for index 4 quotes the 4 and names neither bound; so does the message for
  index 0, and the guidance for requester 8, who has no snapshot, is a fixed sentence.
  A cog without a service issues no request for the index 2 either.
\<close>

theorem remove_error_names_no_range:
  "last_viewed_events viewed_world 7 = Some three_records \<and> length three_records = 3 \<and>
   sent (schedule_remove (Some memory_service) 7 4 viewed_world) =
     [Send (''Error: Invalid ID '4'. Please use `!schedule view` and provide a valid '' @
            ''number from the list.'')] \<and>
   CHR ''1'' \<notin> set (''Error: Invalid ID '4'. Please use `!schedule view` and provide a valid '' @
                      ''number from the list.'') \<and>
   CHR ''3'' \<notin> set (''Error: Invalid ID '4'. Please use `!schedule view` and provide a valid '' @
                      ''number from the list.'') \<and>
   sent (schedule_remove (Some memory_service) 7 0 viewed_world) =
     [Send (''Error: Invalid ID '0'. Please use `!schedule view` and provide a valid '' @
            ''number from the list.'')] \<and>
   sent (schedule_remove (Some memory_service) 8 1 viewed_world) =
     [Send ''Please use `!schedule view` first to see the list of events and their IDs.''] \<and>
   calls (schedule_remove None 7 2 viewed_world) = [] \<and>
   sent (schedule_remove None 7 2 viewed_world) =
     [Send ''Error: Google Calendar connection is not available.'']"
  by code_simp

lemma not_found_is_no_error: "\<not> signals_error NOT_FOUND_TEXT"
  by code_simp

text \<open>
  C7. When the delete request raises an \<open>HttpError\<close>: with status 404 or 410 the outcome
  is the warning text of line 266, the warning mark (the ten bytes the file has there)
  followed by " Event not found. It might have been already deleted.", which carries
  neither of the two error prefixes; with any other status the outcome is "Error: An
  HTTP error occurred while removing the event: " followed by the error, which begins
  with "Error:".
\<close>

theorem delete_not_found_is_warning:
  assumes "events_delete svc event_id (provider w) = (Inl (HttpError status m), p')"
  shows "(status = 404 \<or> status = 410 \<longrightarrow>
            fst (remove_calendar_event (Some svc) event_id w) =
              [CHR 0xC3, CHR 0xA2, CHR 0xC5, CHR 0xA1, CHR 0xC2, CHR 0xA0, CHR 0xC3, CHR 0xAF,
               CHR 0xC2, CHR 0xB8] @
              '' Event not found. It might have been already deleted.'' \<and>
            take 6 (fst (remove_calendar_event (Some svc) event_id w)) \<noteq> ''Error:'' \<and>
            take 19 (fst (remove_calendar_event (Some svc) event_id w)) \<noteq>
              ''An unexpected error'' \<and>
            \<not> signals_error (fst (remove_calendar_event (Some svc) event_id w))) \<and>
         (status \<noteq> 404 \<and> status \<noteq> 410 \<longrightarrow>
            fst (remove_calendar_event (Some svc) event_id w) =
              ''Error: An HTTP error occurred while removing the event: '' @ m \<and>
            take 6 (fst (remove_calendar_event (Some svc) event_id w)) = ''Error:'' \<and>
            signals_error (fst (remove_calendar_event (Some svc) event_id w)))"
proof -
  have "startswith (''Error:'' @ ('' An HTTP error occurred while removing the event: '' @ m))
          ''Error:''"
    by (simp add: startswith_def)
  then have err: "signals_error (''Error: An HTTP error occurred while removing the event: '' @ m)"
    by (simp add: signals_error_def)
  have literal: "NOT_FOUND_TEXT =
      [CHR 0xC3, CHR 0xA2, CHR 0xC5, CHR 0xA1, CHR 0xC2, CHR 0xA0, CHR 0xC3, CHR 0xAF,
       CHR 0xC2, CHR 0xB8] @ '' Event not found. It might have been already deleted.''"
    by (simp add: NOT_FOUND_TEXT_def WARNING_MARK_def)
  have prefixes: "take 6 NOT_FOUND_TEXT \<noteq> ''Error:''"
    "take 19 NOT_FOUND_TEXT \<noteq> ''An unexpected error''"
    by (simp_all add: NOT_FOUND_TEXT_def WARNING_MARK_def)
  show ?thesis
  proof (intro conjI impI)
    assume s: "status = 404 \<or> status = 410"
    have eq: "fst (remove_calendar_event (Some svc) event_id w) = NOT_FOUND_TEXT"
      using assms s by (auto simp: remove_calendar_event_def)
    show "fst (remove_calendar_event (Some svc) event_id w) =
              [CHR 0xC3, CHR 0xA2, CHR 0xC5, CHR 0xA1, CHR 0xC2, CHR 0xA0, CHR 0xC3, CHR 0xAF,
               CHR 0xC2, CHR 0xB8] @
              '' Event not found. It might have been already deleted.''"
      unfolding eq by (rule literal)
    show "take 6 (fst (remove_calendar_event (Some svc) event_id w)) \<noteq> ''Error:''"
      unfolding eq by (rule prefixes)
    show "take 19 (fst (remove_calendar_event (Some svc) event_id w)) \<noteq>
              ''An unexpected error''"
      unfolding eq by (rule prefixes)
    show "\<not> signals_error (fst (remove_calendar_event (Some svc) event_id w))"
      unfolding eq by (rule not_found_is_no_error)
  next
    assume s: "status \<noteq> 404 \<and> status \<noteq> 410"
    have eq: "fst (remove_calendar_event (Some svc) event_id w) =
        ''Error: An HTTP error occurred while removing the event: '' @ m"
      using assms s by (simp add: remove_calendar_event_def)
    show "fst (remove_calendar_event (Some svc) event_id w) =
        ''Error: An HTTP error occurred while removing the event: '' @ m"
      by (rule eq)
    show "take 6 (fst (remove_calendar_event (Some svc) event_id w)) = ''Error:''"
      unfolding eq by simp
    show "signals_error (fst (remove_calendar_event (Some svc) event_id w))"
      unfolding eq by (rule err)
  qed
qed

theorem delete_not_found_is_warning_witness:
  "events_delete memory_service ''ev3'' (provider viewed_world) =
     (Inl (HttpError 404 ''Not Found''), provider viewed_world) \<and>
   fst (remove_calendar_event (Some memory_service) ''ev3'' viewed_world) =
     [CHR 0xC3, CHR 0xA2, CHR 0xC5, CHR 0xA1, CHR 0xC2, CHR 0xA0, CHR 0xC3, CHR 0xAF,
      CHR 0xC2, CHR 0xB8] @ '' Event not found. It might have been already deleted.'' \<and>
   \<not> signals_error (fst (remove_calendar_event (Some memory_service) ''ev3'' viewed_world)) \<and>
   events_delete (failing_service (HttpError 500 ''Backend Error'')) ''ev1''
     (provider unit_world) = (Inl (HttpError 500 ''Backend Error''), ()) \<and>
   fst (remove_calendar_event (Some (failing_service (HttpError 500 ''Backend Error''))) ''ev1''
          unit_world) =
     ''Error: An HTTP error occurred while removing the event: Backend Error'' \<and>
   signals_error
     (fst (remove_calendar_event (Some (failing_service (HttpError 500 ''Backend Error'')))
             ''ev1'' unit_world))"
proof -
  have a: "events_delete memory_service ''ev3'' (provider viewed_world) =
     (Inl (HttpError 404 ''Not Found''), provider viewed_world)"
    by code_simp
  have b: "events_delete (failing_service (HttpError 500 ''Backend Error'')) ''ev1''
     (provider unit_world) = (Inl (HttpError 500 ''Backend Error''), ())"
    by (simp add: failing_service_def)
  have gone: "fst (remove_calendar_event (Some memory_service) ''ev3'' viewed_world) =
      [CHR 0xC3, CHR 0xA2, CHR 0xC5, CHR 0xA1, CHR 0xC2, CHR 0xA0, CHR 0xC3, CHR 0xAF,
       CHR 0xC2, CHR 0xB8] @ '' Event not found. It might have been already deleted.'' \<and>
    \<not> signals_error (fst (remove_calendar_event (Some memory_service) ''ev3'' viewed_world))"
    using delete_not_found_is_warning [OF a] by blast
  have other: "fst (remove_calendar_event (Some (failing_service (HttpError 500 ''Backend Error'')))
          ''ev1'' unit_world) =
      ''Error: An HTTP error occurred while removing the event: Backend Error'' \<and>
    signals_error
      (fst (remove_calendar_event (Some (failing_service (HttpError 500 ''Backend Error'')))
              ''ev1'' unit_world))"
    using delete_not_found_is_warning [OF b] by auto
  show ?thesis
    using a b gone other by blast
qed

text \<open>
  C6. The time parser raises \<open>ParserError\<close> on "gibberish". A cog without a service answers
  the add command with the "not available" text before the string is parsed, not with the
  text for an unparseable time.
\<close>

theorem unparseable_time_without_service:
  "parser_parse_local example_lib ''gibberish'' =
     Inl (ParserError ''Unknown string format: gibberish'') \<and>
   sent (schedule_add example_lib None ''Meeting'' ''gibberish'' 60 example_world) =
     [Send ''Error: Google Calendar connection is not available.''] \<and>
   sent (schedule_add example_lib (Some memory_service) ''Meeting'' ''gibberish'' 60
           example_world) =
     [Send (''Error: Could not understand the time 'gibberish'. Please use formats like '' @
            '''3pm', '15:00', 'tomorrow 10am', '2025-04-20 14:30'.'')]"
  by code_simp

text \<open>
  C6, as the code has it. When the parser raises \<open>ParserError\<close> on the time string,
  \<open>schedule_add\<close> issues no request and leaves the provider unchanged. With a service its
  only effect is to send "Error: Could not understand the time ..." with the string
  quoted; without one its only effect is to send the "not available" text.
\<close>

theorem unparseable_time_no_insert:
  assumes "parser_parse_local lib time_str = Inl (ParserError m)"
  shows "calls (schedule_add lib service summary time_str duration_minutes w) = calls w \<and>
         provider (schedule_add lib service summary time_str duration_minutes w) = provider w \<and>
         (service \<noteq> None \<longrightarrow>
            schedule_add lib service summary time_str duration_minutes w =
              w\<lparr>sent := sent w @
                 [Send (''Error: Could not understand the time '' @ [CHR 0x27] @ time_str @
                        [CHR 0x27] @ ''. Please use formats like '3pm', '15:00', '' @
                        '''tomorrow 10am', '2025-04-20 14:30'.'')]\<rparr>) \<and>
         (service = None \<longrightarrow>
            schedule_add lib service summary time_str duration_minutes w =
              w\<lparr>sent := sent w @
                 [Send ''Error: Google Calendar connection is not available.'']\<rparr>)"
  using assms by (simp add: schedule_add_def add_error_text_def ctx_send_def NOT_AVAILABLE_def)

theorem unparseable_time_no_insert_witness:
  "parser_parse_local example_lib ''gibberish'' =
     Inl (ParserError ''Unknown string format: gibberish'') \<and>
   calls (schedule_add example_lib (Some memory_service) ''Meeting'' ''gibberish'' 60
            example_world) = [] \<and>
   provider (schedule_add example_lib (Some memory_service) ''Meeting'' ''gibberish'' 60
               example_world) = provider example_world \<and>
   sent (schedule_add example_lib (Some memory_service) ''Meeting'' ''gibberish'' 60
           example_world) =
     [Send (''Error: Could not understand the time 'gibberish'. Please use formats like '' @
            '''3pm', '15:00', 'tomorrow 10am', '2025-04-20 14:30'.'')] \<and>
   schedule_add example_lib None ''Meeting'' ''gibberish'' 60 example_world =
     example_world\<lparr>sent := sent example_world @
       [Send ''Error: Google Calendar connection is not available.'']\<rparr>"
proof -
  have p: "parser_parse_local example_lib ''gibberish'' =
     Inl (ParserError ''Unknown string format: gibberish'')"
    by (simp add: example_lib_def)
  have c: "calls example_world = []" "sent example_world = []"
    by (simp_all add: example_world_def)
  show ?thesis
    using p c
      unparseable_time_no_insert [OF p, of "Some memory_service" "''Meeting''" 60 example_world]
      unparseable_time_no_insert [OF p, of None "''Meeting''" 60 example_world]
    by simp
qed





end
